theory Spec2Isabelle
  imports Main "HOL-Library.Word"
begin

section \<open>Go values used by the bridge\<close>

text \<open>
  A Go \<open>error\<close> is modelled by the text its \<open>Error()\<close> method returns. The sequence
  counter of the client is a Go \<open>int\<close> that is incremented, so it is a 64-bit word (the
  width of \<open>int\<close> on 64-bit platforms) whose \<open>+\<close> wraps; it is read as a signed number
  with \<open>sint\<close>. The other integers of the
  bridge (thread ids, frame ids, line numbers, levels) are only compared with constants,
  passed through and printed, so they are \<open>int\<close>.
\<close>

type_synonym error = string

text \<open>\<open>strings.HasPrefix\<close> and \<open>strings.Contains\<close>.\<close>

definition HasPrefix :: "string \<Rightarrow> string \<Rightarrow> bool" where
  "HasPrefix s p = (take (length p) s = p)"

fun Contains :: "string \<Rightarrow> string \<Rightarrow> bool" where
  "Contains [] substr = (substr = [])"
| "Contains (c # s) substr = (HasPrefix (c # s) substr \<or> Contains s substr)"

text \<open>The verb \<open>%d\<close> of \<open>fmt.Sprintf\<close>: decimal digits, with a minus sign below zero.\<close>

definition digit_char :: "nat \<Rightarrow> char" where
  "digit_char n = ''0123456789'' ! n"

fun show_nat :: "nat \<Rightarrow> string" where
  "show_nat n = (if n < 10 then [digit_char n] else show_nat (n div 10) @ [digit_char (n mod 10)])"

declare show_nat.simps [simp del]

definition show_int :: "int \<Rightarrow> string" where
  "show_int i = (if i < 0 then CHR ''-'' # show_nat (nat (- i)) else show_nat (nat i))"

text \<open>
  What a call does beyond returning: it returns a value, panics (the nil dereference and
  the index out of range of the Go runtime), ends the process (\<open>log.Fatal\<close>), or blocks
  for ever in a read that nothing will ever answer.
\<close>

datatype 'a run = Returns 'a | Panics string | Exits string | Blocks

section \<open>Messages of the debug protocol\<close>

text \<open>
  The arguments that the client's request methods fill in. \<open>InitializeArguments\<close>
  stands for the fixed argument record of \<open>InitializeRequest\<close>.
\<close>

datatype arguments =
    NoArguments
  | InitializeArguments
  | LaunchArguments string string bool
  | AttachArguments string int
  | SetBreakpointsArguments string "int list"
  | SetFunctionBreakpointsArguments "string list"
  | ThreadArguments int
  | StackTraceArguments int int int
  | ScopesArguments int
  | VariablesArguments int
  | EvaluateArguments string int string
  | SetVariableArguments int string string
  | DisconnectArguments bool
  | DisassembleArguments string int int

record Request =
  Seq :: "64 word"
  Type :: string
  Command :: string
  Arguments :: arguments

record StoppedEventBody =
  Reason :: string
  ThreadId :: int
  HitBreakpointIds :: "int list"

record Source =
  Path :: string

record Breakpoint =
  Id :: int
  Verified :: bool
  BpMessage :: string
  BpSource :: "Source option"
  BpLine :: int

record StackFrame =
  FrameId :: int
  FrameName :: string
  FrameSource :: "Source option"
  FrameLine :: int
  FrameColumn :: int
  PresentationHint :: string

record Scope =
  ScopeName :: string
  ScopeVariablesReference :: int
  Expensive :: bool

record Variable =
  VarName :: string
  VarType :: string
  VarValue :: string

text \<open>
  The body of a response decides its Go type (\<open>*dap.StackTraceResponse\<close>, ...). The
  capabilities of an initialize response are kept as the text \<open>json.MarshalIndent\<close>
  renders them to; \<open>OtherBody\<close> carries the type name of any response type the bridge
  does not look into.
\<close>

datatype response_body =
    InitializeBody string
  | SetBreakpointsBody "Breakpoint list"
  | ErrorBody
  | StackTraceBody "StackFrame list" int
  | EvaluateBody string string
  | ScopesBody "Scope list"
  | VariablesBody "Variable list"
  | OtherBody string

record Response =
  RequestSeq :: "64 word"
  Success :: bool
  Message :: string
  Body :: response_body

text \<open>
  A decoded \<open>dap.Message\<close>: a response (every response type implements
  \<open>dap.ResponseMessage\<close>), an event (every event type implements \<open>dap.EventMessage\<close>;
  the stopped and the terminated event are the two the bridge looks into), or a request
  of the adapter to the client.
\<close>

datatype dap_message =
    ResponseMessage Response
  | StoppedEvent StoppedEventBody
  | TerminatedEvent
  | OtherEvent string
  | RequestMessage string

fun is_EventMessage :: "dap_message \<Rightarrow> bool" where
  "is_EventMessage (StoppedEvent b) = True"
| "is_EventMessage TerminatedEvent = True"
| "is_EventMessage (OtherEvent t) = True"
| "is_EventMessage m = False"

fun is_ResponseMessage :: "dap_message \<Rightarrow> bool" where
  "is_ResponseMessage (ResponseMessage r) = True"
| "is_ResponseMessage m = False"

text \<open>The verb \<open>%T\<close>: the Go type of a decoded message.\<close>

fun type_name :: "dap_message \<Rightarrow> string" where
  "type_name (ResponseMessage r) =
     (case Body r of
        InitializeBody c \<Rightarrow> ''*dap.InitializeResponse''
      | SetBreakpointsBody bs \<Rightarrow> ''*dap.SetBreakpointsResponse''
      | ErrorBody \<Rightarrow> ''*dap.ErrorResponse''
      | StackTraceBody fs n \<Rightarrow> ''*dap.StackTraceResponse''
      | EvaluateBody v t \<Rightarrow> ''*dap.EvaluateResponse''
      | ScopesBody ss \<Rightarrow> ''*dap.ScopesResponse''
      | VariablesBody vs \<Rightarrow> ''*dap.VariablesResponse''
      | OtherBody t \<Rightarrow> t)"
| "type_name (StoppedEvent b) = ''*dap.StoppedEvent''"
| "type_name TerminatedEvent = ''*dap.TerminatedEvent''"
| "type_name (OtherEvent t) = t"
| "type_name (RequestMessage t) = t"

section \<open>The client (dap.go)\<close>

text \<open>
  The connection is the client's view of the socket: \<open>outbox\<close> holds the requests
  written so far, \<open>inbox\<close> the results of the reads still to come (a decoded message or
  a read error), in order; a read on an empty inbox blocks for ever. \<open>werr\<close> is the
  error every write fails with, \<open>None\<close> on a connection that is open and healthy.
\<close>

record Conn =
  outbox :: "Request list"
  inbox :: "(error + dap_message) list"
  werr :: "error option"

record DAPClient =
  conn :: Conn
  seq :: "64 word"

definition newDAPClientFromConn :: "Conn \<Rightarrow> DAPClient" where
  "newDAPClientFromConn cn = \<lparr>conn = cn, seq = 1\<rparr>"

text \<open>\<open>newDAPClient\<close> dials; a dial error ends the process through \<open>log.Fatal\<close>.\<close>

definition newDAPClient :: "Conn option \<Rightarrow> DAPClient run" where
  "newDAPClient dialled =
     (case dialled of
        None \<Rightarrow> Exits ''dialing:''
      | Some cn \<Rightarrow> Returns (newDAPClientFromConn cn))"

definition newRequest :: "DAPClient \<Rightarrow> string \<Rightarrow> Request \<times> DAPClient" where
  "newRequest c command =
     (\<lparr>Seq = seq c, Type = ''request'', Command = command, Arguments = NoArguments\<rparr>,
      c\<lparr>seq := seq c + 1\<rparr>)"

definition send :: "DAPClient \<Rightarrow> Request \<Rightarrow> error option \<times> DAPClient" where
  "send c request =
     (case werr (conn c) of
        Some e \<Rightarrow> (Some e, c)
      | None \<Rightarrow> (None, c\<lparr>conn := (conn c)\<lparr>outbox := outbox (conn c) @ [request]\<rparr>\<rparr>))"

definition ReadMessage :: "DAPClient \<Rightarrow> ((error + dap_message) \<times> DAPClient) option" where
  "ReadMessage c =
     (case inbox (conn c) of
        [] \<Rightarrow> None
      | r # rest \<Rightarrow> Some (r, c\<lparr>conn := (conn c)\<lparr>inbox := rest\<rparr>\<rparr>))"

text \<open>
  Every request method builds its request with \<open>newRequest\<close>, fills in the arguments
  and sends it.
\<close>

definition request_with :: "DAPClient \<Rightarrow> string \<Rightarrow> arguments \<Rightarrow> error option \<times> DAPClient" where
  "request_with c command args =
     (let (request, c') = newRequest c command
      in send c' (request\<lparr>Arguments := args\<rparr>))"

definition InitializeRequest :: "DAPClient \<Rightarrow> error option \<times> DAPClient" where
  "InitializeRequest c = request_with c ''initialize'' InitializeArguments"

definition LaunchRequest :: "DAPClient \<Rightarrow> string \<Rightarrow> string \<Rightarrow> bool \<Rightarrow> error option \<times> DAPClient" where
  "LaunchRequest c mode program stopOnEntry =
     request_with c ''launch'' (LaunchArguments mode program stopOnEntry)"

definition SetBreakpointsRequest :: "DAPClient \<Rightarrow> string \<Rightarrow> int list \<Rightarrow> error option \<times> DAPClient" where
  "SetBreakpointsRequest c file lines =
     request_with c ''setBreakpoints'' (SetBreakpointsArguments file lines)"

definition SetFunctionBreakpointsRequest :: "DAPClient \<Rightarrow> string list \<Rightarrow> error option \<times> DAPClient" where
  "SetFunctionBreakpointsRequest c functions =
     request_with c ''setFunctionBreakpoints'' (SetFunctionBreakpointsArguments functions)"

definition ConfigurationDoneRequest :: "DAPClient \<Rightarrow> error option \<times> DAPClient" where
  "ConfigurationDoneRequest c = request_with c ''configurationDone'' NoArguments"

definition ContinueRequest :: "DAPClient \<Rightarrow> int \<Rightarrow> error option \<times> DAPClient" where
  "ContinueRequest c threadID = request_with c ''continue'' (ThreadArguments threadID)"

definition NextRequest :: "DAPClient \<Rightarrow> int \<Rightarrow> error option \<times> DAPClient" where
  "NextRequest c threadID = request_with c ''next'' (ThreadArguments threadID)"

definition StepInRequest :: "DAPClient \<Rightarrow> int \<Rightarrow> error option \<times> DAPClient" where
  "StepInRequest c threadID = request_with c ''stepIn'' (ThreadArguments threadID)"

definition StepOutRequest :: "DAPClient \<Rightarrow> int \<Rightarrow> error option \<times> DAPClient" where
  "StepOutRequest c threadID = request_with c ''stepOut'' (ThreadArguments threadID)"

definition PauseRequest :: "DAPClient \<Rightarrow> int \<Rightarrow> error option \<times> DAPClient" where
  "PauseRequest c threadID = request_with c ''pause'' (ThreadArguments threadID)"

definition ThreadsRequest :: "DAPClient \<Rightarrow> error option \<times> DAPClient" where
  "ThreadsRequest c = request_with c ''threads'' NoArguments"

definition StackTraceRequest :: "DAPClient \<Rightarrow> int \<Rightarrow> int \<Rightarrow> int \<Rightarrow> error option \<times> DAPClient" where
  "StackTraceRequest c threadID startFrame levels =
     request_with c ''stackTrace'' (StackTraceArguments threadID startFrame levels)"

definition ScopesRequest :: "DAPClient \<Rightarrow> int \<Rightarrow> error option \<times> DAPClient" where
  "ScopesRequest c frameID = request_with c ''scopes'' (ScopesArguments frameID)"

definition VariablesRequest :: "DAPClient \<Rightarrow> int \<Rightarrow> error option \<times> DAPClient" where
  "VariablesRequest c variablesReference =
     request_with c ''variables'' (VariablesArguments variablesReference)"

definition EvaluateRequest :: "DAPClient \<Rightarrow> string \<Rightarrow> int \<Rightarrow> string \<Rightarrow> error option \<times> DAPClient" where
  "EvaluateRequest c expression frameID context =
     request_with c ''evaluate'' (EvaluateArguments expression frameID context)"

definition DisconnectRequest :: "DAPClient \<Rightarrow> bool \<Rightarrow> error option \<times> DAPClient" where
  "DisconnectRequest c terminateDebuggee =
     request_with c ''disconnect'' (DisconnectArguments terminateDebuggee)"

definition ExceptionInfoRequest :: "DAPClient \<Rightarrow> int \<Rightarrow> error option \<times> DAPClient" where
  "ExceptionInfoRequest c threadID = request_with c ''exceptionInfo'' (ThreadArguments threadID)"

definition SetVariableRequest :: "DAPClient \<Rightarrow> int \<Rightarrow> string \<Rightarrow> string \<Rightarrow> error option \<times> DAPClient" where
  "SetVariableRequest c variablesRef name val =
     request_with c ''setVariable'' (SetVariableArguments variablesRef name val)"

definition RestartRequest :: "DAPClient \<Rightarrow> error option \<times> DAPClient" where
  "RestartRequest c = request_with c ''restart'' NoArguments"

definition TerminateRequest :: "DAPClient \<Rightarrow> error option \<times> DAPClient" where
  "TerminateRequest c = request_with c ''terminate'' NoArguments"

definition LoadedSourcesRequest :: "DAPClient \<Rightarrow> error option \<times> DAPClient" where
  "LoadedSourcesRequest c = request_with c ''loadedSources'' NoArguments"

definition ModulesRequest :: "DAPClient \<Rightarrow> error option \<times> DAPClient" where
  "ModulesRequest c = request_with c ''modules'' NoArguments"

definition DisassembleRequest :: "DAPClient \<Rightarrow> string \<Rightarrow> int \<Rightarrow> int \<Rightarrow> error option \<times> DAPClient" where
  "DisassembleRequest c memoryReference instructionOffset instructionCount =
     request_with c ''disassemble''
       (DisassembleArguments memoryReference instructionOffset instructionCount)"

definition AttachRequest :: "DAPClient \<Rightarrow> string \<Rightarrow> int \<Rightarrow> error option \<times> DAPClient" where
  "AttachRequest c mode processID = request_with c ''attach'' (AttachArguments mode processID)"

section \<open>The session and its tools (tools.go)\<close>

text \<open>
  \<open>exec.Cmd\<close> as far as the bridge uses it: its argument list and whether its
  \<open>Process\<close> field is set, which \<open>Start\<close> does when it succeeds.
\<close>

record Cmd =
  Args :: "string list"
  Process :: bool

record debuggerSession =
  cmd :: "Cmd option"
  client :: "DAPClient option"

text \<open>A tool returns a text result or an error: \<open>Inr\<close> the text, \<open>Inl\<close> the error.\<close>

type_synonym tool_result = "(error + string) run"

definition nl :: string where
  "nl = [CHR 0x0A]"

definition set_inbox :: "DAPClient \<Rightarrow> (error + dap_message) list \<Rightarrow> DAPClient" where
  "set_inbox c rest = c\<lparr>conn := (conn c)\<lparr>inbox := rest\<rparr>\<rparr>"

subsection \<open>Starting and stopping the debugger\<close>

text \<open>
  What the operating system answers to one start: the errors of \<open>StdoutPipe\<close> and
  \<open>Start\<close>, the results of the successive \<open>ReadString\<close> calls on the child's
  standard output (the text read and the error, if any; a read past the end of the list
  blocks), and the connection \<open>net.Dial\<close> returns (\<open>None\<close> when it fails).

  \<open>startDebugger\<close> also returns the calls it made to the outside, in order.
\<close>

record spawn_env =
  pipe_err :: "error option"
  start_err :: "error option"
  stdout :: "(string \<times> error option) list"
  dial :: "Conn option"

datatype effect = StartProcess "string list" | ReadString string "error option" | Dial string

text \<open>The loop of \<open>startDebugger\<close> that waits for the readiness line.\<close>

fun awaitListening :: "(string \<times> error option) list \<Rightarrow> error option run \<times> effect list" where
  "awaitListening [] = (Blocks, [])"
| "awaitListening ((s, err) # rest) =
     (case err of
        Some e \<Rightarrow> (Returns (Some e), [ReadString s err])
      | None \<Rightarrow>
          if HasPrefix s ''DAP server listening at'' then (Returns None, [ReadString s err])
          else (case awaitListening rest of (r, tr) \<Rightarrow> (r, ReadString s err # tr)))"

definition startDebugger ::
  "spawn_env \<Rightarrow> debuggerSession \<Rightarrow> string \<Rightarrow> tool_result \<times> debuggerSession \<times> effect list" where
  "startDebugger env ds port0 =
     (let port = (if \<not> HasPrefix port0 '':'' then '':'' @ port0 else port0);
          args = [''dlv'', ''dap'', ''--listen'', port, ''--log'', ''--log-output'', ''dap''];
          ds1 = ds\<lparr>cmd := Some \<lparr>Args = args, Process = False\<rparr>\<rparr>
      in case pipe_err env of
           Some e \<Rightarrow> (Returns (Inl e), ds1, [])
         | None \<Rightarrow>
        (case start_err env of
           Some e \<Rightarrow> (Returns (Inl e), ds1, [StartProcess args])
         | None \<Rightarrow>
        (let ds2 = ds\<lparr>cmd := Some \<lparr>Args = args, Process = True\<rparr>\<rparr>
         in case awaitListening (stdout env) of
           (Blocks, tr) \<Rightarrow> (Blocks, ds2, StartProcess args # tr)
         | (Panics p, tr) \<Rightarrow> (Panics p, ds2, StartProcess args # tr)
         | (Exits x, tr) \<Rightarrow> (Exits x, ds2, StartProcess args # tr)
         | (Returns (Some e), tr) \<Rightarrow> (Returns (Inl e), ds2, StartProcess args # tr)
         | (Returns None, tr) \<Rightarrow>
        (let tr' = StartProcess args # tr @ [Dial (''localhost'' @ port)]
         in case newDAPClient (dial env) of
           Exits x \<Rightarrow> (Exits x, ds2, tr')
         | Panics p \<Rightarrow> (Panics p, ds2, tr')
         | Blocks \<Rightarrow> (Blocks, ds2, tr')
         | Returns c \<Rightarrow>
        (case InitializeRequest c of
           (Some e, c1) \<Rightarrow> (Returns (Inl e), ds2\<lparr>client := Some c1\<rparr>, tr')
         | (None, c1) \<Rightarrow>
        (case ReadMessage c1 of
           None \<Rightarrow> (Blocks, ds2\<lparr>client := Some c1\<rparr>, tr')
         | Some (Inl e, c2) \<Rightarrow> (Returns (Inl e), ds2\<lparr>client := Some c2\<rparr>, tr')
         | Some (Inr msg, c2) \<Rightarrow>
            (case msg of
               ResponseMessage resp \<Rightarrow>
                 (case Body resp of
                    InitializeBody capabilitiesJSON \<Rightarrow>
                      (Returns (Inr (''Started debugger at: '' @ port @ nl @ nl
                                     @ ''Server Capabilities:'' @ nl @ capabilitiesJSON)),
                       ds2\<lparr>client := Some c2\<rparr>, tr')
                  | _ \<Rightarrow> (Returns (Inl (''unexpected response type: '' @ type_name msg)),
                          ds2\<lparr>client := Some c2\<rparr>, tr'))
             | _ \<Rightarrow> (Returns (Inl (''unexpected response type: '' @ type_name msg)),
                     ds2\<lparr>client := Some c2\<rparr>, tr'))))))))"

text \<open>
  \<open>stopDebugger\<close>; \<open>kill\<close> is the error \<open>Process.Kill\<close> returns, if any. \<open>Kill\<close> on a
  command whose \<open>Process\<close> was never set dereferences nil.
\<close>

definition stopDebugger :: "error option \<Rightarrow> debuggerSession \<Rightarrow> tool_result \<times> debuggerSession" where
  "stopDebugger kill ds =
     (case cmd ds of
        None \<Rightarrow> (Returns (Inr ''No debugger currently executing.''), ds)
      | Some p \<Rightarrow>
          (let ds1 = (if client ds \<noteq> None then ds\<lparr>client := None\<rparr> else ds)
           in if \<not> Process p then (Panics ''invalid memory address or nil pointer dereference'', ds1)
              else if kill \<noteq> None \<and> \<not> Contains (the kill) ''process already finished''
              then (Returns (Inl (the kill)), ds1)
              else (Returns (Inr ''Debugger stopped.''), ds1\<lparr>cmd := None\<rparr>)))"

subsection \<open>Waiting for a response\<close>

fun readAndValidateResponse_loop ::
  "(error + dap_message) list \<Rightarrow> string \<Rightarrow> error option run \<times> (error + dap_message) list" where
  "readAndValidateResponse_loop [] errorPrefix = (Blocks, [])"
| "readAndValidateResponse_loop (Inl err # rest) errorPrefix = (Returns (Some err), rest)"
| "readAndValidateResponse_loop (Inr msg # rest) errorPrefix =
     (case msg of
        ResponseMessage resp \<Rightarrow>
          (if \<not> Success resp then (Returns (Some (errorPrefix @ '': '' @ Message resp)), rest)
           else (Returns None, rest))
      | _ \<Rightarrow> readAndValidateResponse_loop rest errorPrefix)"

definition readAndValidateResponse :: "DAPClient \<Rightarrow> string \<Rightarrow> error option run \<times> DAPClient" where
  "readAndValidateResponse c errorPrefix =
     (case readAndValidateResponse_loop (inbox (conn c)) errorPrefix of
        (r, rest) \<Rightarrow> (r, set_inbox c rest))"

text \<open>
  The shape shared by the tools that send one request and wait with
  \<open>readAndValidateResponse\<close>: the text \<open>ok\<close> is returned when the wait succeeds.
  (\<open>restartDebugger\<close> has this shape too; it is left out because it hands
  \<open>RestartRequest\<close> an argument record that the \<open>RestartRequest\<close> of dap.go does not
  take.)
\<close>

definition validated :: "debuggerSession \<Rightarrow> error option \<times> DAPClient \<Rightarrow> string \<Rightarrow> string
    \<Rightarrow> tool_result \<times> debuggerSession" where
  "validated ds sent errorPrefix ok =
     (case sent of
        (Some err, c1) \<Rightarrow> (Returns (Inl err), ds\<lparr>client := Some c1\<rparr>)
      | (None, c1) \<Rightarrow>
          (case readAndValidateResponse c1 errorPrefix of
             (Returns (Some err), c2) \<Rightarrow> (Returns (Inl err), ds\<lparr>client := Some c2\<rparr>)
           | (Returns None, c2) \<Rightarrow> (Returns (Inr ok), ds\<lparr>client := Some c2\<rparr>)
           | (Panics p, c2) \<Rightarrow> (Panics p, ds\<lparr>client := Some c2\<rparr>)
           | (Exits x, c2) \<Rightarrow> (Exits x, ds\<lparr>client := Some c2\<rparr>)
           | (Blocks, c2) \<Rightarrow> (Blocks, ds\<lparr>client := Some c2\<rparr>)))"

text \<open>
  \<open>debugProgram\<close> and \<open>execProgram\<close> call \<open>ds.client.LaunchRequest\<close> without looking at
  \<open>ds.client\<close>: on a nil client \<open>newRequest\<close> reads \<open>c.seq\<close> through the nil pointer.
\<close>

definition debugProgram :: "debuggerSession \<Rightarrow> string \<Rightarrow> tool_result \<times> debuggerSession" where
  "debugProgram ds path =
     (case client ds of
        None \<Rightarrow> (Panics ''invalid memory address or nil pointer dereference'', ds)
      | Some c \<Rightarrow>
          validated ds (LaunchRequest c ''debug'' path True)
            ''unable to launch program to debug via DAP server'' (''Started debugging: '' @ path))"

definition execProgram :: "debuggerSession \<Rightarrow> string \<Rightarrow> tool_result \<times> debuggerSession" where
  "execProgram ds path =
     (case client ds of
        None \<Rightarrow> (Panics ''invalid memory address or nil pointer dereference'', ds)
      | Some c \<Rightarrow>
          validated ds (LaunchRequest c ''exec'' path True)
            ''unable to exec program to debug via DAP server'' (''Started debugging: '' @ path))"

definition setFunctionBreakpoints :: "debuggerSession \<Rightarrow> string list \<Rightarrow> tool_result \<times> debuggerSession" where
  "setFunctionBreakpoints ds functions =
     (case client ds of
        None \<Rightarrow> (Returns (Inl ''debugger not started''), ds)
      | Some c \<Rightarrow>
          validated ds (SetFunctionBreakpointsRequest c functions)
            ''unable to set function breakpoints''
            (''Set breakpoints on '' @ show_int (int (length functions)) @ '' functions''))"

definition configurationDone :: "debuggerSession \<Rightarrow> tool_result \<times> debuggerSession" where
  "configurationDone ds =
     (case client ds of
        None \<Rightarrow> (Returns (Inl ''debugger not started''), ds)
      | Some c \<Rightarrow>
          validated ds (ConfigurationDoneRequest c)
            ''unable to complete configuration'' ''Configuration done, debugging can begin'')"

definition pauseExecution :: "debuggerSession \<Rightarrow> int \<Rightarrow> tool_result \<times> debuggerSession" where
  "pauseExecution ds threadID =
     (case client ds of
        None \<Rightarrow> (Returns (Inl ''debugger not started''), ds)
      | Some c \<Rightarrow>
          validated ds (PauseRequest c threadID) ''unable to pause execution'' ''Paused execution'')"

definition terminateDebugger :: "debuggerSession \<Rightarrow> tool_result \<times> debuggerSession" where
  "terminateDebugger ds =
     (case client ds of
        None \<Rightarrow> (Returns (Inl ''debugger not started''), ds)
      | Some c \<Rightarrow>
          validated ds (TerminateRequest c)
            ''unable to terminate debugger'' ''Terminated debuggee process'')"

definition attachDebugger :: "debuggerSession \<Rightarrow> string \<Rightarrow> int \<Rightarrow> tool_result \<times> debuggerSession" where
  "attachDebugger ds mode processID =
     (case client ds of
        None \<Rightarrow> (Returns (Inl ''debugger not started''), ds)
      | Some c \<Rightarrow>
          validated ds (AttachRequest c mode processID)
            ''unable to attach to process'' (''Attached to process '' @ show_int processID))"

text \<open>\<open>disconnect\<close> closes the connection and forgets the client once the wait succeeded.\<close>

definition disconnect :: "debuggerSession \<Rightarrow> bool \<Rightarrow> tool_result \<times> debuggerSession" where
  "disconnect ds terminateDebuggee =
     (case client ds of
        None \<Rightarrow> (Returns (Inl ''debugger not started''), ds)
      | Some c \<Rightarrow>
          (case validated ds (DisconnectRequest c terminateDebuggee)
                  ''unable to disconnect'' ''Disconnected from debugger'' of
             (Returns (Inr ok), ds') \<Rightarrow> (Returns (Inr ok), ds'\<lparr>client := None\<rparr>)
           | other \<Rightarrow> other))"

subsection \<open>Execution control\<close>

definition formatStoppedResponse :: "StoppedEventBody \<Rightarrow> string run" where
  "formatStoppedResponse msg =
     (if Reason msg = ''breakpoint'' \<or> Reason msg = ''function breakpoint''
      then (case HitBreakpointIds msg of
              [] \<Rightarrow> Panics ''index out of range [0] with length 0''
            | b # bs \<Rightarrow>
                Returns (''Program stopped as a result of hitting breakpoint '' @ show_int b
                         @ '' hit by thread '' @ show_int (ThreadId msg)))
      else Returns ''Program stopped for unknown reason.'')"

text \<open>
  Text is built up by concatenation; a panic (or any other way of not returning) of the
  part still to come is passed on.
\<close>

definition prepend :: "string \<Rightarrow> string run \<Rightarrow> string run" where
  "prepend pre d =
     (case d of
        Returns s \<Rightarrow> Returns (pre @ s)
      | Panics p \<Rightarrow> Panics p
      | Exits x \<Rightarrow> Exits x
      | Blocks \<Rightarrow> Blocks)"

definition text_result :: "string run \<Rightarrow> tool_result" where
  "text_result d =
     (case d of
        Returns s \<Rightarrow> Returns (Inr s)
      | Panics p \<Rightarrow> Panics p
      | Exits x \<Rightarrow> Exits x
      | Blocks \<Rightarrow> Blocks)"

text \<open>The text result built from the description of a stop.\<close>

definition stopped_result :: "string \<Rightarrow> string run \<Rightarrow> tool_result" where
  "stopped_result pre d =
     (case d of
        Returns response \<Rightarrow> Returns (Inr (pre @ response))
      | Panics p \<Rightarrow> Panics p
      | Exits x \<Rightarrow> Exits x
      | Blocks \<Rightarrow> Blocks)"

fun continueExecution_loop ::
  "(error + dap_message) list \<Rightarrow> tool_result \<times> (error + dap_message) list" where
  "continueExecution_loop [] = (Blocks, [])"
| "continueExecution_loop (Inl err # rest) = (Returns (Inl err), rest)"
| "continueExecution_loop (Inr msg # rest) =
     (case msg of
        ResponseMessage resp \<Rightarrow>
          (if \<not> Success resp then (Returns (Inl (''unable to continue: '' @ Message resp)), rest)
           else continueExecution_loop rest)
      | StoppedEvent body \<Rightarrow>
          (stopped_result (''Continued execution...'' @ nl) (formatStoppedResponse body), rest)
      | TerminatedEvent \<Rightarrow> (Returns (Inr ''Continued execution to program termination''), rest)
      | _ \<Rightarrow> continueExecution_loop rest)"

fun nextStep_loop ::
  "(error + dap_message) list \<Rightarrow> tool_result \<times> (error + dap_message) list" where
  "nextStep_loop [] = (Blocks, [])"
| "nextStep_loop (Inl err # rest) = (Returns (Inl err), rest)"
| "nextStep_loop (Inr msg # rest) =
     (case msg of
        ResponseMessage resp \<Rightarrow>
          (if \<not> Success resp
           then (Returns (Inl (''unable to step to next line: '' @ Message resp)), rest)
           else nextStep_loop rest)
      | StoppedEvent body \<Rightarrow>
          (stopped_result (''Stepped to next line...'' @ nl) (formatStoppedResponse body), rest)
      | TerminatedEvent \<Rightarrow> (Returns (Inr ''Stepped to program termination''), rest)
      | _ \<Rightarrow> nextStep_loop rest)"

fun stepIn_loop ::
  "(error + dap_message) list \<Rightarrow> tool_result \<times> (error + dap_message) list" where
  "stepIn_loop [] = (Blocks, [])"
| "stepIn_loop (Inl err # rest) = (Returns (Inl err), rest)"
| "stepIn_loop (Inr msg # rest) =
     (case msg of
        ResponseMessage resp \<Rightarrow>
          (if \<not> Success resp
           then (Returns (Inl (''unable to step into function: '' @ Message resp)), rest)
           else stepIn_loop rest)
      | StoppedEvent body \<Rightarrow>
          (stopped_result (''Stepped into function...'' @ nl) (formatStoppedResponse body), rest)
      | TerminatedEvent \<Rightarrow> (Returns (Inr ''Stepped to program termination''), rest)
      | _ \<Rightarrow> stepIn_loop rest)"

fun stepOut_loop ::
  "(error + dap_message) list \<Rightarrow> tool_result \<times> (error + dap_message) list" where
  "stepOut_loop [] = (Blocks, [])"
| "stepOut_loop (Inl err # rest) = (Returns (Inl err), rest)"
| "stepOut_loop (Inr msg # rest) =
     (case msg of
        ResponseMessage resp \<Rightarrow>
          (if \<not> Success resp
           then (Returns (Inl (''unable to step out of function: '' @ Message resp)), rest)
           else stepOut_loop rest)
      | StoppedEvent body \<Rightarrow>
          (stopped_result (''Stepped out of function...'' @ nl) (formatStoppedResponse body), rest)
      | TerminatedEvent \<Rightarrow> (Returns (Inr ''Stepped to program termination''), rest)
      | _ \<Rightarrow> stepOut_loop rest)"

text \<open>
  The shape shared by the four tools that send one request and then run their own loop
  on the messages to come.
\<close>

definition looping :: "debuggerSession \<Rightarrow> error option \<times> DAPClient
    \<Rightarrow> ((error + dap_message) list \<Rightarrow> tool_result \<times> (error + dap_message) list)
    \<Rightarrow> tool_result \<times> debuggerSession" where
  "looping ds sent loop =
     (case sent of
        (Some err, c1) \<Rightarrow> (Returns (Inl err), ds\<lparr>client := Some c1\<rparr>)
      | (None, c1) \<Rightarrow>
          (case loop (inbox (conn c1)) of
             (r, rest) \<Rightarrow> (r, ds\<lparr>client := Some (set_inbox c1 rest)\<rparr>)))"

definition continueExecution :: "debuggerSession \<Rightarrow> int \<Rightarrow> tool_result \<times> debuggerSession" where
  "continueExecution ds threadID =
     (case client ds of
        None \<Rightarrow> (Returns (Inl ''debugger not started''), ds)
      | Some c \<Rightarrow> looping ds (ContinueRequest c threadID) continueExecution_loop)"

definition nextStep :: "debuggerSession \<Rightarrow> int \<Rightarrow> tool_result \<times> debuggerSession" where
  "nextStep ds threadID =
     (case client ds of
        None \<Rightarrow> (Returns (Inl ''debugger not started''), ds)
      | Some c \<Rightarrow> looping ds (NextRequest c threadID) nextStep_loop)"

definition stepIn :: "debuggerSession \<Rightarrow> int \<Rightarrow> tool_result \<times> debuggerSession" where
  "stepIn ds threadID =
     (case client ds of
        None \<Rightarrow> (Returns (Inl ''debugger not started''), ds)
      | Some c \<Rightarrow> looping ds (StepInRequest c threadID) stepIn_loop)"

definition stepOut :: "debuggerSession \<Rightarrow> int \<Rightarrow> tool_result \<times> debuggerSession" where
  "stepOut ds threadID =
     (case client ds of
        None \<Rightarrow> (Returns (Inl ''debugger not started''), ds)
      | Some c \<Rightarrow> looping ds (StepOutRequest c threadID) stepOut_loop)"

subsection \<open>State inspection\<close>

text \<open>
  The tools that send one request, read one message and look at it once: \<open>answer\<close>
  turns the message read into the result.
\<close>

definition reading_once :: "debuggerSession \<Rightarrow> error option \<times> DAPClient
    \<Rightarrow> (dap_message \<Rightarrow> tool_result) \<Rightarrow> tool_result \<times> debuggerSession" where
  "reading_once ds sent answer =
     (case sent of
        (Some err, c1) \<Rightarrow> (Returns (Inl err), ds\<lparr>client := Some c1\<rparr>)
      | (None, c1) \<Rightarrow>
          (case ReadMessage c1 of
             None \<Rightarrow> (Blocks, ds\<lparr>client := Some c1\<rparr>)
           | Some (Inl err, c2) \<Rightarrow> (Returns (Inl err), ds\<lparr>client := Some c2\<rparr>)
           | Some (Inr msg, c2) \<Rightarrow> (answer msg, ds\<lparr>client := Some c2\<rparr>)))"

text \<open>
  The test \<open>msg.(dap.ResponseMessage)\<close> followed by the look at the success flag, as
  \<open>listThreads\<close>, \<open>getVariables\<close>, \<open>setVariable\<close>, \<open>getLoadedSources\<close>, \<open>getModules\<close>,
  \<open>disassembleCode\<close> and \<open>getExceptionInfo\<close> do it.
\<close>

definition response_or_unexpected :: "string \<Rightarrow> string \<Rightarrow> dap_message \<Rightarrow> tool_result" where
  "response_or_unexpected errorPrefix ok msg =
     (case msg of
        ResponseMessage resp \<Rightarrow>
          (if \<not> Success resp then Returns (Inl (errorPrefix @ '': '' @ Message resp))
           else Returns (Inr ok))
      | _ \<Rightarrow> Returns (Inl ''unexpected response type''))"

definition listThreads :: "debuggerSession \<Rightarrow> tool_result \<times> debuggerSession" where
  "listThreads ds =
     (case client ds of
        None \<Rightarrow> (Returns (Inl ''debugger not started''), ds)
      | Some c \<Rightarrow>
          reading_once ds (ThreadsRequest c)
            (response_or_unexpected ''unable to get threads'' ''Retrieved thread list''))"

definition getVariables :: "debuggerSession \<Rightarrow> int \<Rightarrow> tool_result \<times> debuggerSession" where
  "getVariables ds variablesReference =
     (case client ds of
        None \<Rightarrow> (Returns (Inl ''debugger not started''), ds)
      | Some c \<Rightarrow>
          reading_once ds (VariablesRequest c variablesReference)
            (response_or_unexpected ''unable to get variables'' ''Retrieved variables''))"

definition setVariable :: "debuggerSession \<Rightarrow> int \<Rightarrow> string \<Rightarrow> string \<Rightarrow> tool_result \<times> debuggerSession" where
  "setVariable ds variablesReference name val =
     (case client ds of
        None \<Rightarrow> (Returns (Inl ''debugger not started''), ds)
      | Some c \<Rightarrow>
          reading_once ds (SetVariableRequest c variablesReference name val)
            (response_or_unexpected ''unable to set variable''
               (''Set variable '' @ name @ '' to '' @ val)))"

definition getLoadedSources :: "debuggerSession \<Rightarrow> tool_result \<times> debuggerSession" where
  "getLoadedSources ds =
     (case client ds of
        None \<Rightarrow> (Returns (Inl ''debugger not started''), ds)
      | Some c \<Rightarrow>
          reading_once ds (LoadedSourcesRequest c)
            (response_or_unexpected ''unable to get loaded sources'' ''Retrieved loaded sources''))"

definition getModules :: "debuggerSession \<Rightarrow> tool_result \<times> debuggerSession" where
  "getModules ds =
     (case client ds of
        None \<Rightarrow> (Returns (Inl ''debugger not started''), ds)
      | Some c \<Rightarrow>
          reading_once ds (ModulesRequest c)
            (response_or_unexpected ''unable to get modules'' ''Retrieved modules''))"

definition disassembleCode :: "debuggerSession \<Rightarrow> string \<Rightarrow> int \<Rightarrow> int \<Rightarrow> tool_result \<times> debuggerSession" where
  "disassembleCode ds memoryReference instructionOffset instructionCount =
     (case client ds of
        None \<Rightarrow> (Returns (Inl ''debugger not started''), ds)
      | Some c \<Rightarrow>
          reading_once ds (DisassembleRequest c memoryReference instructionOffset instructionCount)
            (response_or_unexpected ''unable to disassemble'' ''Disassembled code''))"

definition getExceptionInfo :: "debuggerSession \<Rightarrow> int \<Rightarrow> tool_result \<times> debuggerSession" where
  "getExceptionInfo ds threadID =
     (case client ds of
        None \<Rightarrow> (Returns (Inl ''debugger not started''), ds)
      | Some c \<Rightarrow>
          reading_once ds (ExceptionInfoRequest c threadID)
            (response_or_unexpected ''unable to get exception info'' ''Retrieved exception info''))"

text \<open>
  \<open>setBreakpoints\<close> reads one message too. A verified breakpoint is printed with the
  path of its source, read through the pointer \<open>bp.Source\<close>.
\<close>

fun format_breakpoints :: "Breakpoint list \<Rightarrow> string run" where
  "format_breakpoints [] = Returns []"
| "format_breakpoints (bp # bps) =
     (if Verified bp
      then (case BpSource bp of
              None \<Rightarrow> Panics ''invalid memory address or nil pointer dereference''
            | Some src \<Rightarrow>
                prepend
                  (''Breakpoint created at '' @ Path src @ '':'' @ show_int (BpLine bp)
                   @ '' with ID '' @ show_int (Id bp))
                  (format_breakpoints bps))
      else prepend (''Breakpoint unable to be created: '' @ BpMessage bp)
             (format_breakpoints bps))"

definition setBreakpoints_answer :: "dap_message \<Rightarrow> tool_result" where
  "setBreakpoints_answer msg =
     (case msg of
        ResponseMessage response \<Rightarrow>
          (case Body response of
             SetBreakpointsBody breakpoints \<Rightarrow> text_result (format_breakpoints breakpoints)
           | ErrorBody \<Rightarrow> Returns (Inl (Message response))
           | _ \<Rightarrow> Returns (Inl ''unexpected DAP response from set breakpoints request''))
      | _ \<Rightarrow> Returns (Inl ''unexpected DAP response from set breakpoints request''))"

definition setBreakpoints :: "debuggerSession \<Rightarrow> string \<Rightarrow> int list \<Rightarrow> tool_result \<times> debuggerSession" where
  "setBreakpoints ds file lines =
     (case client ds of
        None \<Rightarrow> (Returns (Inl ''debugger not started''), ds)
      | Some c \<Rightarrow> reading_once ds (SetBreakpointsRequest c file lines) setBreakpoints_answer)"

text \<open>\<open>getStackTrace\<close>: the frames are numbered from 0 in the order of the response.\<close>

fun format_frames :: "nat \<Rightarrow> StackFrame list \<Rightarrow> string" where
  "format_frames i [] = []"
| "format_frames i (frame # frames) =
     nl @ ''#'' @ show_int (int i) @ '' (Frame ID: '' @ show_int (FrameId frame) @ '') ''
     @ FrameName frame
     @ (case FrameSource frame of
          None \<Rightarrow> []
        | Some src \<Rightarrow>
            if Path src \<noteq> []
            then nl @ ''   at '' @ Path src @ '':'' @ show_int (FrameLine frame)
                 @ (if FrameColumn frame > 0 then '':'' @ show_int (FrameColumn frame) else [])
            else [])
     @ (if PresentationHint frame = ''subtle'' then '' (runtime)'' else [])
     @ nl
     @ format_frames (Suc i) frames"

fun getStackTrace_loop ::
  "int \<Rightarrow> (error + dap_message) list \<Rightarrow> tool_result \<times> (error + dap_message) list" where
  "getStackTrace_loop threadID [] = (Blocks, [])"
| "getStackTrace_loop threadID (Inl err # rest) = (Returns (Inl err), rest)"
| "getStackTrace_loop threadID (Inr msg # rest) =
     (case msg of
        ResponseMessage resp \<Rightarrow>
          (case Body resp of
             StackTraceBody stackFrames totalFrames \<Rightarrow>
               (if \<not> Success resp
                then (Returns (Inl (''unable to get stack trace: '' @ Message resp)), rest)
                else (Returns (Inr (''Stack trace for thread '' @ show_int threadID @ '':'' @ nl
                                    @ format_frames 0 stackFrames
                                    @ nl @ ''Total frames: '' @ show_int totalFrames)), rest))
           | _ \<Rightarrow>
               (if \<not> Success resp
                then (Returns (Inl (''unable to get stack trace: '' @ Message resp)), rest)
                else (Returns (Inl ''received generic response instead of StackTraceResponse''),
                      rest)))
      | RequestMessage t \<Rightarrow> (Returns (Inl (''unexpected response type: '' @ type_name msg)), rest)
      | _ \<Rightarrow> getStackTrace_loop threadID rest)"

definition getStackTrace :: "debuggerSession \<Rightarrow> int \<Rightarrow> int \<Rightarrow> int \<Rightarrow> tool_result \<times> debuggerSession" where
  "getStackTrace ds threadID startFrame levels0 =
     (case client ds of
        None \<Rightarrow> (Returns (Inl ''debugger not started''), ds)
      | Some c \<Rightarrow>
          (let levels = (if levels0 = 0 then 20 else levels0)
           in looping ds (StackTraceRequest c threadID startFrame levels)
                (getStackTrace_loop threadID)))"

text \<open>\<open>evaluateExpression\<close>: an empty context stands for \<open>repl\<close>.\<close>

fun evaluateExpression_loop ::
  "(error + dap_message) list \<Rightarrow> tool_result \<times> (error + dap_message) list" where
  "evaluateExpression_loop [] = (Blocks, [])"
| "evaluateExpression_loop (Inl err # rest) = (Returns (Inl err), rest)"
| "evaluateExpression_loop (Inr msg # rest) =
     (case msg of
        ResponseMessage resp \<Rightarrow>
          (case Body resp of
             EvaluateBody result ty \<Rightarrow>
               (if \<not> Success resp
                then (Returns (Inl (''unable to evaluate expression: '' @ Message resp)), rest)
                else (Returns (Inr (if ty \<noteq> [] then result @ '' (type: '' @ ty @ '')''
                                    else result)), rest))
           | _ \<Rightarrow> (Returns (Inl (''unexpected response type: '' @ type_name msg)), rest))
      | RequestMessage t \<Rightarrow> (Returns (Inl (''unexpected response type: '' @ type_name msg)), rest)
      | _ \<Rightarrow> evaluateExpression_loop rest)"

definition evaluateExpression :: "debuggerSession \<Rightarrow> string \<Rightarrow> int \<Rightarrow> string \<Rightarrow> tool_result \<times> debuggerSession" where
  "evaluateExpression ds expression frameID context0 =
     (case client ds of
        None \<Rightarrow> (Returns (Inl ''debugger not started''), ds)
      | Some c \<Rightarrow>
          (let context = (if context0 = [] then ''repl'' else context0)
           in looping ds (EvaluateRequest c expression frameID context) evaluateExpression_loop))"

text \<open>
  \<open>getScopes\<close> reads the scopes response and then, for every scope with a positive
  variables reference, sends a variables request and reads one message; the variables are
  printed when that message is a successful variables response, and left out otherwise.
\<close>

fun format_variables :: "Variable list \<Rightarrow> string" where
  "format_variables [] = []"
| "format_variables (v # vs) =
     ''  '' @ VarName v
     @ (if VarType v \<noteq> [] then '' ('' @ VarType v @ '')'' else [])
     @ '' = '' @ VarValue v @ nl
     @ format_variables vs"

fun getScopes_scopes :: "DAPClient \<Rightarrow> Scope list \<Rightarrow> string run \<times> DAPClient" where
  "getScopes_scopes c [] = (Returns [], c)"
| "getScopes_scopes c (scope # scopes) =
     (let header = nl @ ScopeName scope @ '' (ref: '' @ show_int (ScopeVariablesReference scope)
                   @ (if Expensive scope then '', expensive'' else []) @ '')'' @ nl
      in if ScopeVariablesReference scope > 0
         then (case VariablesRequest c (ScopeVariablesReference scope) of
                 (Some err, c1) \<Rightarrow>
                   (case getScopes_scopes c1 scopes of (r, c') \<Rightarrow> (prepend header r, c'))
               | (None, c1) \<Rightarrow>
                   (case ReadMessage c1 of
                      None \<Rightarrow> (Blocks, c1)
                    | Some (Inl err, c2) \<Rightarrow>
                        (case getScopes_scopes c2 scopes of (r, c') \<Rightarrow> (prepend header r, c'))
                    | Some (Inr varMsg, c2) \<Rightarrow>
                        (let vars =
                           (case varMsg of
                              ResponseMessage varResp \<Rightarrow>
                                (case Body varResp of
                                   VariablesBody variables \<Rightarrow>
                                     if Success varResp then format_variables variables else []
                                 | _ \<Rightarrow> [])
                            | _ \<Rightarrow> [])
                         in case getScopes_scopes c2 scopes of
                              (r, c') \<Rightarrow> (prepend (header @ vars) r, c'))))
         else (case getScopes_scopes c scopes of (r, c') \<Rightarrow> (prepend header r, c')))"

definition getScopes :: "debuggerSession \<Rightarrow> int \<Rightarrow> tool_result \<times> debuggerSession" where
  "getScopes ds frameID =
     (case client ds of
        None \<Rightarrow> (Returns (Inl ''debugger not started''), ds)
      | Some c \<Rightarrow>
          (case ScopesRequest c frameID of
             (Some err, c1) \<Rightarrow> (Returns (Inl err), ds\<lparr>client := Some c1\<rparr>)
           | (None, c1) \<Rightarrow>
               (case ReadMessage c1 of
                  None \<Rightarrow> (Blocks, ds\<lparr>client := Some c1\<rparr>)
                | Some (Inl err, c2) \<Rightarrow> (Returns (Inl err), ds\<lparr>client := Some c2\<rparr>)
                | Some (Inr msg, c2) \<Rightarrow>
                    (case msg of
                       ResponseMessage resp \<Rightarrow>
                         (case Body resp of
                            ScopesBody scopes \<Rightarrow>
                              (if \<not> Success resp
                               then (Returns (Inl (''unable to get scopes: '' @ Message resp)),
                                     ds\<lparr>client := Some c2\<rparr>)
                               else (case getScopes_scopes c2 scopes of
                                       (r, c3) \<Rightarrow>
                                         (text_result
                                            (prepend (''Scopes for frame '' @ show_int frameID
                                                      @ '':'' @ nl) r),
                                          ds\<lparr>client := Some c3\<rparr>)))
                          | _ \<Rightarrow> (Returns (Inl ''unexpected response type''),
                                  ds\<lparr>client := Some c2\<rparr>))
                     | _ \<Rightarrow> (Returns (Inl ''unexpected response type''),
                             ds\<lparr>client := Some c2\<rparr>)))))"

text \<open>
  The messages that the loops of \<open>continueExecution\<close>, \<open>nextStep\<close>, \<open>stepIn\<close> and
  \<open>stepOut\<close> read and pass over: a response that reports success, an event that is
  neither a stopped nor a terminated event, and any other message.
\<close>

fun passed_over :: "dap_message \<Rightarrow> bool" where
  "passed_over (ResponseMessage resp) = Success resp"
| "passed_over (StoppedEvent body) = False"
| "passed_over TerminatedEvent = False"
| "passed_over m = True"

section \<open>Sequences of requests on one client\<close>

text \<open>
  To speak about every sequence of requests a caller can issue on one client, a call of a
  request method is a value and \<open>calls\<close> runs a list of them in order (a failed send
  does not stop the caller from issuing the next request).
\<close>

datatype client_call =
    CallInitialize
  | CallLaunch string string bool
  | CallSetBreakpoints string "int list"
  | CallSetFunctionBreakpoints "string list"
  | CallConfigurationDone
  | CallContinue int
  | CallNext int
  | CallStepIn int
  | CallStepOut int
  | CallPause int
  | CallThreads
  | CallStackTrace int int int
  | CallScopes int
  | CallVariables int
  | CallEvaluate string int string
  | CallDisconnect bool
  | CallExceptionInfo int
  | CallSetVariable int string string
  | CallRestart
  | CallTerminate
  | CallLoadedSources
  | CallModules
  | CallDisassemble string int int
  | CallAttach string int

fun call :: "DAPClient \<Rightarrow> client_call \<Rightarrow> error option \<times> DAPClient" where
  "call c CallInitialize = InitializeRequest c"
| "call c (CallLaunch mode program stopOnEntry) = LaunchRequest c mode program stopOnEntry"
| "call c (CallSetBreakpoints file lines) = SetBreakpointsRequest c file lines"
| "call c (CallSetFunctionBreakpoints functions) = SetFunctionBreakpointsRequest c functions"
| "call c CallConfigurationDone = ConfigurationDoneRequest c"
| "call c (CallContinue threadID) = ContinueRequest c threadID"
| "call c (CallNext threadID) = NextRequest c threadID"
| "call c (CallStepIn threadID) = StepInRequest c threadID"
| "call c (CallStepOut threadID) = StepOutRequest c threadID"
| "call c (CallPause threadID) = PauseRequest c threadID"
| "call c CallThreads = ThreadsRequest c"
| "call c (CallStackTrace threadID startFrame levels) = StackTraceRequest c threadID startFrame levels"
| "call c (CallScopes frameID) = ScopesRequest c frameID"
| "call c (CallVariables variablesReference) = VariablesRequest c variablesReference"
| "call c (CallEvaluate expression frameID context) = EvaluateRequest c expression frameID context"
| "call c (CallDisconnect terminateDebuggee) = DisconnectRequest c terminateDebuggee"
| "call c (CallExceptionInfo threadID) = ExceptionInfoRequest c threadID"
| "call c (CallSetVariable variablesRef name val) = SetVariableRequest c variablesRef name val"
| "call c CallRestart = RestartRequest c"
| "call c CallTerminate = TerminateRequest c"
| "call c CallLoadedSources = LoadedSourcesRequest c"
| "call c CallModules = ModulesRequest c"
| "call c (CallDisassemble memoryReference instructionOffset instructionCount) =
     DisassembleRequest c memoryReference instructionOffset instructionCount"
| "call c (CallAttach mode processID) = AttachRequest c mode processID"

fun calls :: "DAPClient \<Rightarrow> client_call list \<Rightarrow> DAPClient" where
  "calls c [] = c"
| "calls c (x # xs) = calls (snd (call c x)) xs"

section \<open>Runs of the debugger\<close>

text \<open>
  Two subprocesses to run the session against. The first prints a line, then the
  readiness line, accepts the connection and answers the initialize request. The second
  prints a line and closes its standard output, so that the next read ends with \<open>EOF\<close>;
  a connection to it would succeed if one were made.
\<close>

definition listening_env :: spawn_env where
  "listening_env =
     \<lparr>pipe_err = None, start_err = None,
      stdout = [(''API server starting'' @ nl, None),
                (''DAP server listening at: 127.0.0.1:9090'' @ nl, None)],
      dial = Some \<lparr>outbox = [],
                    inbox = [Inr (ResponseMessage \<lparr>RequestSeq = 1, Success = True, Message = [],
                                   Body = InitializeBody ''{}''\<rparr>)],
                    werr = None\<rparr>\<rparr>"

definition silent_env :: spawn_env where
  "silent_env =
     \<lparr>pipe_err = None, start_err = None,
      stdout = [(''could not launch'' @ nl, None), ([], Some ''EOF'')],
      dial = Some \<lparr>outbox = [], inbox = [], werr = None\<rparr>\<rparr>"

text \<open>A third subprocess that cannot be started: \<open>Start\<close> fails.\<close>

definition unstartable_env :: spawn_env where
  "unstartable_env =
     \<lparr>pipe_err = None, start_err = Some ''executable file not found'',
      stdout = [], dial = None\<rparr>"

text \<open>One session object: started, stopped, and started again.\<close>

definition first_session :: debuggerSession where
  "first_session = fst (snd (startDebugger listening_env \<lparr>cmd = None, client = None\<rparr> ''9090''))"

definition stopped_session :: debuggerSession where
  "stopped_session = snd (stopDebugger None first_session)"

definition second_session :: debuggerSession where
  "second_session = fst (snd (startDebugger listening_env stopped_session ''9090''))"

section \<open>Facts about the request methods\<close>

lemma request_with_seq: "seq (snd (request_with c command a)) = seq c + 1"
  by (simp add: request_with_def newRequest_def send_def split: option.split)

lemma request_with_werr: "werr (conn (snd (request_with c command a))) = werr (conn c)"
  by (simp add: request_with_def newRequest_def send_def split: option.split)

lemma request_with_outbox:
  "werr (conn c) = None \<Longrightarrow>
   outbox (conn (snd (request_with c command a))) =
     outbox (conn c) @ [\<lparr>Seq = seq c, Type = ''request'', Command = command, Arguments = a\<rparr>]"
  by (simp add: request_with_def newRequest_def send_def)

lemma request_with_inbox: "inbox (conn (snd (request_with c command a))) = inbox (conn c)"
  by (simp add: request_with_def newRequest_def send_def split: option.split)

lemma request_with_ok: "werr (conn c) = None \<Longrightarrow> fst (request_with c command a) = None"
  by (simp add: request_with_def newRequest_def send_def)

lemmas request_defs =
  InitializeRequest_def LaunchRequest_def SetBreakpointsRequest_def
  SetFunctionBreakpointsRequest_def ConfigurationDoneRequest_def ContinueRequest_def
  NextRequest_def StepInRequest_def StepOutRequest_def PauseRequest_def ThreadsRequest_def
  StackTraceRequest_def ScopesRequest_def VariablesRequest_def EvaluateRequest_def
  DisconnectRequest_def ExceptionInfoRequest_def SetVariableRequest_def RestartRequest_def
  TerminateRequest_def LoadedSourcesRequest_def ModulesRequest_def DisassembleRequest_def
  AttachRequest_def

lemma call_request_with: "\<exists>command a. call c x = request_with c command a"
  by (cases x) (simp_all add: request_defs, blast+)

lemma call_seq: "seq (snd (call c x)) = seq c + 1"
  using call_request_with [of c x] by (auto simp: request_with_seq)

lemma call_werr: "werr (conn (snd (call c x))) = werr (conn c)"
  using call_request_with [of c x] by (auto simp: request_with_werr)

lemma call_outbox_seqs:
  "werr (conn c) = None \<Longrightarrow>
   map Seq (outbox (conn (snd (call c x)))) = map Seq (outbox (conn c)) @ [seq c]"
  using call_request_with [of c x] by (auto simp: request_with_outbox)

lemma calls_outbox_seqs:
  "werr (conn c) = None \<Longrightarrow>
   map Seq (outbox (conn (calls c xs))) =
     map Seq (outbox (conn c)) @ map (\<lambda>k. seq c + of_nat k) [0..<length xs]"
proof (induction xs arbitrary: c)
  case Nil
  then show ?case by simp
next
  case (Cons x xs)
  have w: "werr (conn (snd (call c x))) = None"
    using Cons.prems by (simp add: call_werr)
  have shift: "map (\<lambda>k. seq c + of_nat k) [0..<Suc (length xs)] =
      seq c # map (\<lambda>k. seq c + 1 + of_nat k) [0..<length xs]"
    by (simp add: upt_conv_Cons map_Suc_upt [symmetric] del: upt_Suc add: ac_simps)
  show ?case
    using Cons.IH [OF w] Cons.prems
    by (simp add: call_outbox_seqs call_seq shift del: upt_Suc)
qed

lemma sint_of_nat_small: "n < 2 ^ 63 \<Longrightarrow> sint (of_nat n :: 64 word) = int n"
  by (simp add: signed_of_nat signed_take_bit_int_eq_self)

lemma upt_shift1: "map (\<lambda>k. (1::64 word) + of_nat k) [0..<n] = map of_nat [1..<Suc n]"
proof -
  have "map (of_nat :: nat \<Rightarrow> 64 word) [1..<Suc n] = map (of_nat \<circ> Suc) [0..<n]"
    unfolding map_map [symmetric] map_Suc_upt by simp
  then show ?thesis by (simp add: comp_def add.commute)
qed

section \<open>Facts about the tools\<close>

lemma set_inbox_outbox [simp]: "outbox (conn (set_inbox c rest)) = outbox (conn c)"
  by (simp add: set_inbox_def)

lemma set_inbox_seq [simp]: "seq (set_inbox c rest) = seq c"
  by (simp add: set_inbox_def)

lemma looping_client:
  "\<exists>c'. client (snd (looping ds sent loop)) = Some c'
        \<and> outbox (conn c') = outbox (conn (snd sent)) \<and> seq c' = seq (snd sent)"
  by (cases sent) (auto simp: looping_def split: option.split prod.split)

lemma readAndValidateResponse_loop_skip:
  "\<forall>m\<in>set pre. \<not> is_ResponseMessage m \<Longrightarrow>
   readAndValidateResponse_loop (map Inr pre @ xs) p = readAndValidateResponse_loop xs p"
proof (induction pre)
  case Nil
  then show ?case by simp
next
  case (Cons m pre)
  then show ?case by (cases m) simp_all
qed

lemma readAndValidateResponse_loop_first_response:
  "\<forall>m\<in>set pre. \<not> is_ResponseMessage m \<Longrightarrow>
   readAndValidateResponse_loop (map Inr pre @ Inr (ResponseMessage resp) # rest) p =
     (Returns (if Success resp then None else Some (p @ '': '' @ Message resp)), rest)"
  by (simp add: readAndValidateResponse_loop_skip)

lemma continueExecution_loop_skip:
  "\<forall>m\<in>set pre. passed_over m \<Longrightarrow>
   continueExecution_loop (map Inr pre @ xs) = continueExecution_loop xs"
proof (induction pre)
  case Nil
  then show ?case by simp
next
  case (Cons m pre)
  then show ?case by (cases m) simp_all
qed

lemma nextStep_loop_skip:
  "\<forall>m\<in>set pre. passed_over m \<Longrightarrow> nextStep_loop (map Inr pre @ xs) = nextStep_loop xs"
proof (induction pre)
  case Nil
  then show ?case by simp
next
  case (Cons m pre)
  then show ?case by (cases m) simp_all
qed

lemma stepIn_loop_skip:
  "\<forall>m\<in>set pre. passed_over m \<Longrightarrow> stepIn_loop (map Inr pre @ xs) = stepIn_loop xs"
proof (induction pre)
  case Nil
  then show ?case by simp
next
  case (Cons m pre)
  then show ?case by (cases m) simp_all
qed

lemma stepOut_loop_skip:
  "\<forall>m\<in>set pre. passed_over m \<Longrightarrow> stepOut_loop (map Inr pre @ xs) = stepOut_loop xs"
proof (induction pre)
  case Nil
  then show ?case by simp
next
  case (Cons m pre)
  then show ?case by (cases m) simp_all
qed

lemma looping_result:
  "fst sent = None \<Longrightarrow> fst (looping ds sent loop) = fst (loop (inbox (conn (snd sent))))"
  by (cases sent) (simp add: looping_def split: prod.split)

lemma validated_result:
  "fst sent = None \<Longrightarrow>
   fst (validated ds sent p ok) =
     (case fst (readAndValidateResponse_loop (inbox (conn (snd sent))) p) of
        Returns (Some err) \<Rightarrow> Returns (Inl err)
      | Returns None \<Rightarrow> Returns (Inr ok)
      | Panics x \<Rightarrow> Panics x
      | Exits x \<Rightarrow> Exits x
      | Blocks \<Rightarrow> Blocks)"
  by (cases sent)
     (simp add: validated_def readAndValidateResponse_def split: prod.split run.split option.split)

subsection \<open>Starting\<close>

lemma awaitListening_no_dial: "Dial a \<notin> set (snd (awaitListening xs))"
  by (induction xs rule: awaitListening.induct) (auto split: option.splits prod.splits)

lemma awaitListening_ready:
  "fst (awaitListening xs) = Returns None \<Longrightarrow>
   \<exists>s. ReadString s None \<in> set (snd (awaitListening xs)) \<and> HasPrefix s ''DAP server listening at''"
  by (induction xs rule: awaitListening.induct) (auto split: option.splits prod.splits if_splits)

lemma awaitListening_error:
  "\<forall>(l, x)\<in>set lines. x = None \<and> \<not> HasPrefix l ''DAP server listening at'' \<Longrightarrow>
   fst (awaitListening (lines @ (s, Some e) # later)) = Returns (Some e)"
  by (induction lines) (auto split: prod.splits)

lemma startDebugger_trace:
  "startDebugger env ds port = (r, ds', tr) \<Longrightarrow>
   ((\<forall>a. Dial a \<notin> set tr) \<and> client ds' = client ds
      \<and> (fst (awaitListening (stdout env)) = Returns None \<longrightarrow> pipe_err env \<noteq> None \<or> start_err env \<noteq> None))
   \<or> (\<exists>args a. tr = StartProcess args # snd (awaitListening (stdout env)) @ [Dial a]
        \<and> fst (awaitListening (stdout env)) = Returns None
        \<and> pipe_err env = None \<and> start_err env = None)"
  using awaitListening_no_dial [of _ "stdout env"]
  apply (cases "awaitListening (stdout env)")
  apply (simp add: startDebugger_def Let_def split: option.splits run.splits)
  apply (auto split: option.splits prod.splits sum.splits dap_message.splits response_body.splits)
  done

lemma startDebugger_stdout_error:
  "startDebugger env ds port = (r, ds', tr) \<Longrightarrow>
   fst (awaitListening (stdout env)) = Returns (Some e) \<Longrightarrow>
   (\<exists>e'. r = Returns (Inl e')) \<and> (\<forall>a. Dial a \<notin> set tr) \<and> client ds' = client ds
   \<and> (pipe_err env = None \<and> start_err env = None \<longrightarrow> r = Returns (Inl e))"
  using awaitListening_no_dial [of _ "stdout env"]
  apply (cases "awaitListening (stdout env)")
  apply (auto simp add: startDebugger_def Let_def split: option.splits)
  done

lemma startDebugger_new_client:
  "startDebugger env ds port = (r, ds', tr) \<Longrightarrow> Dial a \<in> set tr \<Longrightarrow>
   dial env = Some cn \<Longrightarrow> werr cn = None \<Longrightarrow>
   \<exists>c'. client ds' = Some c' \<and> seq c' = 2 \<and> werr (conn c') = None
      \<and> outbox (conn c') = outbox cn @ [\<lparr>Seq = 1, Type = ''request'', Command = ''initialize'',
                                           Arguments = InitializeArguments\<rparr>]"
  using awaitListening_no_dial [of _ "stdout env"]
  apply (cases "awaitListening (stdout env)")
  apply (simp add: startDebugger_def Let_def newDAPClient_def newDAPClientFromConn_def
      InitializeRequest_def request_with_def newRequest_def send_def ReadMessage_def
      split: option.splits run.splits)
  apply (auto split: list.splits sum.splits dap_message.splits response_body.splits)
  done

lemma before_last:
  "xs @ [d] = pre @ x # post \<Longrightarrow> x \<notin> set xs \<Longrightarrow> pre = xs"
proof (induction xs arbitrary: pre)
  case Nil
  then show ?case by (cases pre) auto
next
  case (Cons y ys)
  then show ?case by (cases pre) auto
qed

lemma first_session_eq:
  "first_session =
     \<lparr>cmd = Some \<lparr>Args = [''dlv'', ''dap'', ''--listen'', '':9090'', ''--log'', ''--log-output'', ''dap''],
                  Process = True\<rparr>,
      client = Some \<lparr>conn = \<lparr>outbox = [\<lparr>Seq = 1, Type = ''request'', Command = ''initialize'',
                                         Arguments = InitializeArguments\<rparr>],
                              inbox = [], werr = None\<rparr>,
                     seq = 2\<rparr>\<rparr>"
  by (simp add: first_session_def listening_env_def startDebugger_def Let_def HasPrefix_def nl_def
      newDAPClient_def newDAPClientFromConn_def InitializeRequest_def request_with_def
      newRequest_def send_def ReadMessage_def)

lemma stopped_session_eq: "stopped_session = \<lparr>cmd = None, client = None\<rparr>"
  by (simp add: stopped_session_def first_session_eq stopDebugger_def)

lemma second_session_eq: "second_session = first_session"
  by (simp add: second_session_def stopped_session_eq first_session_def)

lemma upt_shift:
  "map (\<lambda>k. (of_nat m :: 64 word) + of_nat k) [0..<n] = map of_nat [m..<m + n]"
  by (induction n) simp_all

lemma upt_shift2:
  "(1::64 word) # map (\<lambda>k. 2 + of_nat k) [0..<n] = map of_nat [1..<Suc (Suc n)]"
proof -
  have "[1..<Suc (Suc n)] = 1 # [2..<2 + n]"
    by (simp add: upt_conv_Cons numeral_2_eq_2 del: upt_Suc)
  with upt_shift [of 2 n] show ?thesis by simp
qed

lemma distinct_small_seqs:
  "n < 2 ^ 63 \<Longrightarrow> distinct (map (of_nat :: nat \<Rightarrow> 64 word) [1..<Suc n])"
proof -
  assume n: "n < 2 ^ 63"
  have "map sint (map (of_nat :: nat \<Rightarrow> 64 word) [1..<Suc n]) = map int [1..<Suc n]"
    unfolding map_map
  proof (rule map_cong [OF refl])
    fix k assume "k \<in> set [1..<Suc n]"
    then have "k < 2 ^ 63" using n by auto
    then show "(sint \<circ> (of_nat :: nat \<Rightarrow> 64 word)) k = int k" by (simp add: sint_of_nat_small)
  qed
  moreover have "distinct (map int [1..<Suc n])"
    by (simp add: distinct_map inj_on_def del: upt_Suc)
  ultimately have "distinct (map sint (map (of_nat :: nat \<Rightarrow> 64 word) [1..<Suc n]))"
    by (simp only:)
  then show ?thesis by (simp only: distinct_map)
qed

lemma listening_run:
  "startDebugger listening_env \<lparr>cmd = None, client = None\<rparr> ''9090'' =
     (Returns (Inr (''Started debugger at: :9090'' @ nl @ nl @ ''Server Capabilities:'' @ nl @ ''{}'')),
      first_session,
      [StartProcess [''dlv'', ''dap'', ''--listen'', '':9090'', ''--log'', ''--log-output'', ''dap''],
       ReadString (''API server starting'' @ nl) None,
       ReadString (''DAP server listening at: 127.0.0.1:9090'' @ nl) None,
       Dial ''localhost:9090''])"
  unfolding first_session_eq
  by (simp add: listening_env_def startDebugger_def Let_def HasPrefix_def nl_def
      newDAPClient_def newDAPClientFromConn_def InitializeRequest_def request_with_def
      newRequest_def send_def ReadMessage_def)

lemma silent_run:
  "startDebugger silent_env \<lparr>cmd = None, client = None\<rparr> ''9090'' =
     (Returns (Inl ''EOF''),
      \<lparr>cmd = Some \<lparr>Args = [''dlv'', ''dap'', ''--listen'', '':9090'', ''--log'', ''--log-output'', ''dap''],
                   Process = True\<rparr>,
       client = None\<rparr>,
      [StartProcess [''dlv'', ''dap'', ''--listen'', '':9090'', ''--log'', ''--log-output'', ''dap''],
       ReadString (''could not launch'' @ nl) None,
       ReadString [] (Some ''EOF'')])"
  by (simp add: silent_env_def startDebugger_def Let_def HasPrefix_def nl_def)

subsection \<open>What the other tools do where a claim fails\<close>

lemma tools_without_client:
  "client ds = None \<Longrightarrow>
     fst (setBreakpoints ds file lines) = Returns (Inl ''debugger not started'')
   \<and> fst (setFunctionBreakpoints ds functions) = Returns (Inl ''debugger not started'')
   \<and> fst (configurationDone ds) = Returns (Inl ''debugger not started'')
   \<and> fst (continueExecution ds t) = Returns (Inl ''debugger not started'')
   \<and> fst (nextStep ds t) = Returns (Inl ''debugger not started'')
   \<and> fst (stepIn ds t) = Returns (Inl ''debugger not started'')
   \<and> fst (stepOut ds t) = Returns (Inl ''debugger not started'')
   \<and> fst (pauseExecution ds t) = Returns (Inl ''debugger not started'')
   \<and> fst (listThreads ds) = Returns (Inl ''debugger not started'')
   \<and> fst (getStackTrace ds t startFrame levels) = Returns (Inl ''debugger not started'')
   \<and> fst (getScopes ds frameID) = Returns (Inl ''debugger not started'')
   \<and> fst (getVariables ds ref) = Returns (Inl ''debugger not started'')
   \<and> fst (evaluateExpression ds expression frameID context) = Returns (Inl ''debugger not started'')
   \<and> fst (setVariable ds ref name val) = Returns (Inl ''debugger not started'')
   \<and> fst (terminateDebugger ds) = Returns (Inl ''debugger not started'')
   \<and> fst (getLoadedSources ds) = Returns (Inl ''debugger not started'')
   \<and> fst (getModules ds) = Returns (Inl ''debugger not started'')
   \<and> fst (disassembleCode ds memoryReference offset count) = Returns (Inl ''debugger not started'')
   \<and> fst (attachDebugger ds mode processID) = Returns (Inl ''debugger not started'')
   \<and> fst (disconnect ds terminateDebuggee) = Returns (Inl ''debugger not started'')
   \<and> fst (getExceptionInfo ds t) = Returns (Inl ''debugger not started'')"
  by (simp add: setBreakpoints_def setFunctionBreakpoints_def configurationDone_def
      continueExecution_def nextStep_def stepIn_def stepOut_def pauseExecution_def
      listThreads_def getStackTrace_def getScopes_def getVariables_def evaluateExpression_def
      setVariable_def terminateDebugger_def getLoadedSources_def getModules_def
      disassembleCode_def attachDebugger_def disconnect_def getExceptionInfo_def)

lemma getStackTrace_loop_skips_events:
  "\<forall>m\<in>set evs. is_EventMessage m \<Longrightarrow>
   getStackTrace_loop t (map Inr evs @ xs) = getStackTrace_loop t xs"
proof (induction evs)
  case Nil
  then show ?case by simp
next
  case (Cons m evs)
  then show ?case by (cases m) simp_all
qed

lemma evaluateExpression_loop_skips_events:
  "\<forall>m\<in>set evs. is_EventMessage m \<Longrightarrow>
   evaluateExpression_loop (map Inr evs @ xs) = evaluateExpression_loop xs"
proof (induction evs)
  case Nil
  then show ?case by simp
next
  case (Cons m evs)
  then show ?case by (cases m) simp_all
qed

lemma formatStoppedResponse_returns:
  "HitBreakpointIds body \<noteq> []
     \<or> (Reason body \<noteq> ''breakpoint'' \<and> Reason body \<noteq> ''function breakpoint'') \<Longrightarrow>
   \<exists>d. formatStoppedResponse body = Returns d"
  by (auto simp: formatStoppedResponse_def split: list.splits)

lemma formatStoppedResponse_panics:
  "formatStoppedResponse body = Panics p \<longleftrightarrow>
     (Reason body = ''breakpoint'' \<or> Reason body = ''function breakpoint'')
     \<and> HitBreakpointIds body = [] \<and> p = ''index out of range [0] with length 0''"
  by (auto simp: formatStoppedResponse_def split: list.splits)

text \<open>
  Where \<open>ds.cmd\<close> is nil, \<open>stopDebugger\<close> answers that nothing is running and leaves
  the session as it was; a stop that returned \<open>Debugger stopped.\<close> has cleared the
  subprocess and the client, so a stop right after it is such a call.
\<close>

lemma stopDebugger_without_cmd:
  "(cmd ds = None \<longrightarrow>
      stopDebugger kill ds = (Returns (Inr ''No debugger currently executing.''), ds))
   \<and> (stopDebugger kill ds = (Returns (Inr ''Debugger stopped.''), ds') \<longrightarrow>
      cmd ds' = None \<and> client ds' = None
      \<and> stopDebugger kill' ds' = (Returns (Inr ''No debugger currently executing.''), ds'))"
  by (auto simp: stopDebugger_def Let_def split: option.splits if_splits)

lemma stopDebugger_without_process:
  "cmd ds = Some p \<Longrightarrow> \<not> Process p \<Longrightarrow>
   fst (stopDebugger kill ds) = Panics ''invalid memory address or nil pointer dereference''"
  by (simp add: stopDebugger_def Let_def)

lemma startDebugger_failed_start_keeps_cmd:
  "pipe_err env = Some e \<or> (pipe_err env = None \<and> start_err env = Some e) \<Longrightarrow>
   \<exists>p. cmd (fst (snd (startDebugger env ds port))) = Some p \<and> \<not> Process p
     \<and> fst (startDebugger env ds port) = Returns (Inl e)"
  by (auto simp: startDebugger_def Let_def)

section \<open>The claims\<close>

text \<open>
  C1. The claim is that the wait for a response returns only on a response that carries the
  sequence number of the request just sent and fails on any other. The code compares no
  sequence number: \<open>configurationDone\<close> sends request 1 and takes a response to request 99
  as its answer.
\<close>

theorem configurationDone_accepts_other_seq:
  "configurationDone
     \<lparr>cmd = None,
      client = Some \<lparr>conn = \<lparr>outbox = [],
                              inbox = [Inr (ResponseMessage \<lparr>RequestSeq = 99, Success = True,
                                              Message = [], Body = OtherBody ''*dap.ThreadsResponse''\<rparr>)],
                              werr = None\<rparr>,
                     seq = 1\<rparr>\<rparr>
   = (Returns (Inr ''Configuration done, debugging can begin''),
      \<lparr>cmd = None,
       client = Some \<lparr>conn = \<lparr>outbox = [\<lparr>Seq = 1, Type = ''request'',
                                          Command = ''configurationDone'',
                                          Arguments = NoArguments\<rparr>],
                               inbox = [], werr = None\<rparr>,
                      seq = 2\<rparr>\<rparr>)"
  by (simp add: configurationDone_def validated_def ConfigurationDoneRequest_def request_with_def
      newRequest_def send_def readAndValidateResponse_def set_inbox_def)

text \<open>
  C1, as the code has it. \<open>readAndValidateResponse\<close> returns at the first response it
  reads, whatever sequence number that response carries: with success when the response
  reports success, and with the error made of the prefix and the response's message
  otherwise. The messages before it that are not responses are read and dropped.
\<close>

theorem readAndValidateResponse_first_response:
  "inbox (conn c) = map Inr pre @ Inr (ResponseMessage resp) # rest \<Longrightarrow>
   \<forall>m\<in>set pre. \<not> is_ResponseMessage m \<Longrightarrow>
   readAndValidateResponse c p =
     (Returns (if Success resp then None else Some (p @ '': '' @ Message resp)),
      set_inbox c rest)"
  by (simp add: readAndValidateResponse_def readAndValidateResponse_loop_first_response)

theorem readAndValidateResponse_first_response_witness:
  "readAndValidateResponse
     \<lparr>conn = \<lparr>outbox = [], 
              inbox = [Inr (OtherEvent ''*dap.OutputEvent''),
                       Inr (ResponseMessage \<lparr>RequestSeq = 7, Success = False,
                              Message = ''no such thread'', Body = ErrorBody\<rparr>),
                       Inr TerminatedEvent],
              werr = None\<rparr>, seq = 3\<rparr> ''unable to pause execution''
   = (Returns (Some ''unable to pause execution: no such thread''),
      \<lparr>conn = \<lparr>outbox = [], inbox = [Inr TerminatedEvent], werr = None\<rparr>, seq = 3\<rparr>)"
  using readAndValidateResponse_first_response
    [of "\<lparr>conn = \<lparr>outbox = [], 
              inbox = [Inr (OtherEvent ''*dap.OutputEvent''),
                       Inr (ResponseMessage \<lparr>RequestSeq = 7, Success = False,
                              Message = ''no such thread'', Body = ErrorBody\<rparr>),
                       Inr TerminatedEvent],
              werr = None\<rparr>, seq = 3\<rparr>"
        "[OtherEvent ''*dap.OutputEvent'']"
        "\<lparr>RequestSeq = 7, Success = False, Message = ''no such thread'', Body = ErrorBody\<rparr>"
        "[Inr TerminatedEvent]" "''unable to pause execution''"]
  by (simp add: set_inbox_def)

text \<open>
  C2. The sequence numbers of the requests written on one open connection count up from 1
  in the order of issue: after any \<open>N\<close> calls of request methods on a client made by
  \<open>newDAPClientFromConn\<close> on a connection on which nothing was written yet and whose
  writes succeed, the \<open>Seq\<close> fields on the wire are the 64-bit words 1, 2, ..., \<open>N\<close>;
  read as Go's signed \<open>int\<close> they are the numbers 1, ..., \<open>N\<close> themselves for every
  \<open>N\<close> below \<open>2 ^ 63\<close>, the range of the counter. No number is left out, repeated or
  out of order.
\<close>

theorem request_seqs_count_up:
  "werr cn = None \<Longrightarrow> outbox cn = [] \<Longrightarrow>
   map Seq (outbox (conn (calls (newDAPClientFromConn cn) xs)))
     = map of_nat [1..<Suc (length xs)]
   \<and> (length xs < 2 ^ 63 \<longrightarrow>
        map (\<lambda>r. sint (Seq r)) (outbox (conn (calls (newDAPClientFromConn cn) xs)))
          = map int [1..<Suc (length xs)])"
proof -
  assume w: "werr cn = None" and o: "outbox cn = []"
  let ?out = "outbox (conn (calls (newDAPClientFromConn cn) xs))"
  have seqs: "map Seq ?out = map of_nat [1..<Suc (length xs)]"
    using calls_outbox_seqs [of "newDAPClientFromConn cn" xs] w o
    by (simp add: newDAPClientFromConn_def upt_shift1 del: upt_Suc)
  have "map (\<lambda>r. sint (Seq r)) ?out = map int [1..<Suc (length xs)]" if "length xs < 2 ^ 63"
  proof -
    have "map (\<lambda>r. sint (Seq r)) ?out = map sint (map Seq ?out)" by (simp add: comp_def)
    also have "\<dots> = map (\<lambda>k. sint (of_nat k :: 64 word)) [1..<Suc (length xs)]"
      by (simp add: seqs comp_def del: upt_Suc)
    also have "\<dots> = map int [1..<Suc (length xs)]"
    proof (rule map_cong [OF refl])
      fix k assume "k \<in> set [1..<Suc (length xs)]"
      then have "k < 2 ^ 63" using that by auto
      then show "sint (of_nat k :: 64 word) = int k" by (rule sint_of_nat_small)
    qed
    finally show ?thesis .
  qed
  with seqs show ?thesis by blast
qed

theorem request_seqs_count_up_witness:
  "map Seq (outbox (conn (calls (newDAPClientFromConn \<lparr>outbox = [], inbox = [], werr = None\<rparr>)
        [CallInitialize, CallLaunch ''exec'' ''/bin/p'' True, CallContinue 1])))
     = [1, 2, 3]
   \<and> map (\<lambda>r. sint (Seq r))
        (outbox (conn (calls (newDAPClientFromConn \<lparr>outbox = [], inbox = [], werr = None\<rparr>)
           [CallInitialize, CallLaunch ''exec'' ''/bin/p'' True, CallContinue 1])))
     = [1, 2, 3]"
  using request_seqs_count_up [of "\<lparr>outbox = [], inbox = [], werr = None\<rparr>"
      "[CallInitialize, CallLaunch ''exec'' ''/bin/p'' True, CallContinue 1]"]
  by (simp add: upt_conv_Cons)

text \<open>
  C3. The claim is that every request-sending tool returns a not-connected error when no
  client is connected. \<open>debugProgram\<close> (and \<open>execProgram\<close>) lack the test of
  \<open>ds.client\<close> that the other tools start with: on a session without client the call
  panics on the nil client.
\<close>

theorem debugProgram_without_client:
  "debugProgram \<lparr>cmd = None, client = None\<rparr> ''/tmp/prog''
     = (Panics ''invalid memory address or nil pointer dereference'',
        \<lparr>cmd = None, client = None\<rparr>)
   \<and> execProgram \<lparr>cmd = None, client = None\<rparr> ''/tmp/prog''
     = (Panics ''invalid memory address or nil pointer dereference'',
        \<lparr>cmd = None, client = None\<rparr>)"
  by (simp add: debugProgram_def execProgram_def)

text \<open>
  C4. The claim is that a state-inspection query ignores the events that arrive before its
  response and keeps reading. \<open>getVariables\<close> reads one message only: when an event
  comes first the call fails with \<open>unexpected response type\<close> and leaves the response
  unread in the connection. \<open>listThreads\<close> fails in the same way.
\<close>

theorem getVariables_event_first:
  "getVariables
     \<lparr>cmd = None,
      client = Some \<lparr>conn = \<lparr>outbox = [],
                              inbox = [Inr (OtherEvent ''*dap.OutputEvent''),
                                       Inr (ResponseMessage \<lparr>RequestSeq = 1, Success = True,
                                              Message = [], Body = VariablesBody []\<rparr>)],
                              werr = None\<rparr>,
                     seq = 1\<rparr>\<rparr> 1000
   = (Returns (Inl ''unexpected response type''),
      \<lparr>cmd = None,
       client = Some \<lparr>conn = \<lparr>outbox = [\<lparr>Seq = 1, Type = ''request'', Command = ''variables'',
                                          Arguments = VariablesArguments 1000\<rparr>],
                               inbox = [Inr (ResponseMessage \<lparr>RequestSeq = 1, Success = True,
                                              Message = [], Body = VariablesBody []\<rparr>)],
                               werr = None\<rparr>,
                      seq = 2\<rparr>\<rparr>)
   \<and> fst (listThreads
     \<lparr>cmd = None,
      client = Some \<lparr>conn = \<lparr>outbox = [],
                              inbox = [Inr (StoppedEvent \<lparr>Reason = ''breakpoint'', ThreadId = 1,
                                              HitBreakpointIds = [2]\<rparr>),
                                       Inr (ResponseMessage \<lparr>RequestSeq = 1, Success = True,
                                              Message = [], Body = OtherBody ''*dap.ThreadsResponse''\<rparr>)],
                              werr = None\<rparr>,
                     seq = 1\<rparr>\<rparr>)
     = Returns (Inl ''unexpected response type'')"
  by (simp add: getVariables_def listThreads_def reading_once_def VariablesRequest_def
      ThreadsRequest_def request_with_def newRequest_def send_def ReadMessage_def
      response_or_unexpected_def)

text \<open>
  C5. The claim is that continue, next, step-in, step-out and pause all end their wait at
  a stopped or a terminated event. \<open>pauseExecution\<close> waits with
  \<open>readAndValidateResponse\<close>: it reads past a stopped and a terminated event and answers
  \<open>Paused execution\<close> at the response.
\<close>

theorem pauseExecution_ignores_stop:
  "pauseExecution
     \<lparr>cmd = None,
      client = Some \<lparr>conn = \<lparr>outbox = [],
                              inbox = [Inr (StoppedEvent \<lparr>Reason = ''pause'', ThreadId = 1,
                                              HitBreakpointIds = []\<rparr>),
                                       Inr TerminatedEvent,
                                       Inr (ResponseMessage \<lparr>RequestSeq = 1, Success = True,
                                              Message = [], Body = OtherBody ''*dap.PauseResponse''\<rparr>)],
                              werr = None\<rparr>,
                     seq = 1\<rparr>\<rparr> 1
   = (Returns (Inr ''Paused execution''),
      \<lparr>cmd = None,
       client = Some \<lparr>conn = \<lparr>outbox = [\<lparr>Seq = 1, Type = ''request'', Command = ''pause'',
                                          Arguments = ThreadArguments 1\<rparr>],
                               inbox = [], werr = None\<rparr>,
                      seq = 2\<rparr>\<rparr>)"
  by (simp add: pauseExecution_def validated_def PauseRequest_def request_with_def
      newRequest_def send_def readAndValidateResponse_def set_inbox_def)

text \<open>
  C5, as the code has it. In \<open>continueExecution\<close>, \<open>nextStep\<close>, \<open>stepIn\<close> and \<open>stepOut\<close>
  the wait passes over successful responses and other events; a stopped event ends it
  with the tool's heading followed by the description \<open>formatStoppedResponse\<close> returns,
  and a terminated event ends it with the tool's text for a program that ran to its end.
  \<open>pauseExecution\<close> does not look at events: it returns at the first response, with
  \<open>Paused execution\<close> when that response reports success.
\<close>

theorem execution_control_wait:
  "client ds = Some c \<Longrightarrow> werr (conn c) = None \<Longrightarrow> \<forall>m\<in>set pre. passed_over m \<Longrightarrow>
   (inbox (conn c) = map Inr pre @ Inr (StoppedEvent body) # rest
      \<and> formatStoppedResponse body = Returns d \<longrightarrow>
        fst (continueExecution ds t) = Returns (Inr (''Continued execution...'' @ nl @ d))
      \<and> fst (nextStep ds t) = Returns (Inr (''Stepped to next line...'' @ nl @ d))
      \<and> fst (stepIn ds t) = Returns (Inr (''Stepped into function...'' @ nl @ d))
      \<and> fst (stepOut ds t) = Returns (Inr (''Stepped out of function...'' @ nl @ d)))
   \<and> (inbox (conn c) = map Inr pre @ Inr TerminatedEvent # rest \<longrightarrow>
        fst (continueExecution ds t) = Returns (Inr ''Continued execution to program termination'')
      \<and> fst (nextStep ds t) = Returns (Inr ''Stepped to program termination'')
      \<and> fst (stepIn ds t) = Returns (Inr ''Stepped to program termination'')
      \<and> fst (stepOut ds t) = Returns (Inr ''Stepped to program termination''))
   \<and> (\<forall>evs resp rest'.
        inbox (conn c) = map Inr evs @ Inr (ResponseMessage resp) # rest'
        \<and> (\<forall>m\<in>set evs. \<not> is_ResponseMessage m) \<longrightarrow>
        fst (pauseExecution ds t) =
          Returns (if Success resp then Inr ''Paused execution''
                   else Inl (''unable to pause execution: '' @ Message resp)))"
proof -
  assume c: "client ds = Some c" and w: "werr (conn c) = None"
    and pre: "\<forall>m\<in>set pre. passed_over m"
  note sent = request_with_ok [OF w] request_with_inbox
  have stopped: "fst (continueExecution ds t) = Returns (Inr (''Continued execution...'' @ nl @ d))
      \<and> fst (nextStep ds t) = Returns (Inr (''Stepped to next line...'' @ nl @ d))
      \<and> fst (stepIn ds t) = Returns (Inr (''Stepped into function...'' @ nl @ d))
      \<and> fst (stepOut ds t) = Returns (Inr (''Stepped out of function...'' @ nl @ d))"
    if i: "inbox (conn c) = map Inr pre @ Inr (StoppedEvent body) # rest"
      and d: "formatStoppedResponse body = Returns d"
    using c pre
    by (simp add: continueExecution_def nextStep_def stepIn_def stepOut_def looping_result
        ContinueRequest_def NextRequest_def StepInRequest_def StepOutRequest_def sent i d
        continueExecution_loop_skip nextStep_loop_skip stepIn_loop_skip stepOut_loop_skip
        stopped_result_def)
  have terminated: "fst (continueExecution ds t) = Returns (Inr ''Continued execution to program termination'')
      \<and> fst (nextStep ds t) = Returns (Inr ''Stepped to program termination'')
      \<and> fst (stepIn ds t) = Returns (Inr ''Stepped to program termination'')
      \<and> fst (stepOut ds t) = Returns (Inr ''Stepped to program termination'')"
    if i: "inbox (conn c) = map Inr pre @ Inr TerminatedEvent # rest"
    using c pre
    by (simp add: continueExecution_def nextStep_def stepIn_def stepOut_def looping_result
        ContinueRequest_def NextRequest_def StepInRequest_def StepOutRequest_def sent i
        continueExecution_loop_skip nextStep_loop_skip stepIn_loop_skip stepOut_loop_skip)
  have pause: "fst (pauseExecution ds t) =
          Returns (if Success resp then Inr ''Paused execution''
                   else Inl (''unable to pause execution: '' @ Message resp))"
    if i: "inbox (conn c) = map Inr evs @ Inr (ResponseMessage resp) # rest'"
      and e: "\<forall>m\<in>set evs. \<not> is_ResponseMessage m" for evs resp rest'
    using c e
    by (simp add: pauseExecution_def validated_result PauseRequest_def sent i
        readAndValidateResponse_loop_first_response)
  from stopped terminated pause show ?thesis by blast
qed

theorem execution_control_wait_witness:
  "fst (continueExecution
     \<lparr>cmd = None,
      client = Some \<lparr>conn = \<lparr>outbox = [],
                              inbox = [Inr (ResponseMessage \<lparr>RequestSeq = 1, Success = True,
                                              Message = [], Body = OtherBody ''*dap.ContinueResponse''\<rparr>),
                                       Inr (OtherEvent ''*dap.OutputEvent''),
                                       Inr (StoppedEvent \<lparr>Reason = ''breakpoint'', ThreadId = 1,
                                              HitBreakpointIds = [2]\<rparr>)],
                              werr = None\<rparr>,
                     seq = 1\<rparr>\<rparr> 1)
     = Returns (Inr (''Continued execution...'' @ nl
                     @ ''Program stopped as a result of hitting breakpoint 2 hit by thread 1''))
   \<and> fst (stepOut
     \<lparr>cmd = None,
      client = Some \<lparr>conn = \<lparr>outbox = [],
                              inbox = [Inr (ResponseMessage \<lparr>RequestSeq = 1, Success = True,
                                              Message = [], Body = OtherBody ''*dap.ContinueResponse''\<rparr>),
                                       Inr (OtherEvent ''*dap.OutputEvent''),
                                       Inr TerminatedEvent],
                              werr = None\<rparr>,
                     seq = 1\<rparr>\<rparr> 1)
     = Returns (Inr ''Stepped to program termination'')
   \<and> fst (pauseExecution
     \<lparr>cmd = None,
      client = Some \<lparr>conn = \<lparr>outbox = [],
                              inbox = [Inr (ResponseMessage \<lparr>RequestSeq = 1, Success = True,
                                              Message = [], Body = OtherBody ''*dap.ContinueResponse''\<rparr>),
                                       Inr (OtherEvent ''*dap.OutputEvent''),
                                       Inr TerminatedEvent],
                              werr = None\<rparr>,
                     seq = 1\<rparr>\<rparr> 1)
     = Returns (Inr ''Paused execution'')"
proof -
  let ?ok = "\<lparr>RequestSeq = 1, Success = True, Message = [],
              Body = OtherBody ''*dap.ContinueResponse''\<rparr>"
  let ?pre = "[ResponseMessage ?ok, OtherEvent ''*dap.OutputEvent'']"
  let ?body = "\<lparr>Reason = ''breakpoint'', ThreadId = 1, HitBreakpointIds = [2]\<rparr>"
  let ?c1 = "\<lparr>conn = \<lparr>outbox = [], inbox = map Inr ?pre @ [Inr (StoppedEvent ?body)],
                        werr = None\<rparr>, seq = 1\<rparr>"
  let ?c2 = "\<lparr>conn = \<lparr>outbox = [], inbox = map Inr ?pre @ [Inr TerminatedEvent],
                        werr = None\<rparr>, seq = 1\<rparr>"
  have d: "formatStoppedResponse ?body
      = Returns ''Program stopped as a result of hitting breakpoint 2 hit by thread 1''"
    by (simp add: formatStoppedResponse_def show_int_def show_nat.simps digit_char_def)
  have p: "\<forall>m\<in>set ?pre. passed_over m" by simp
  have stopped: "fst (continueExecution \<lparr>cmd = None, client = Some ?c1\<rparr> 1)
     = Returns (Inr (''Continued execution...'' @ nl
                     @ ''Program stopped as a result of hitting breakpoint 2 hit by thread 1''))"
    using execution_control_wait [of "\<lparr>cmd = None, client = Some ?c1\<rparr>" ?c1 ?pre ?body "[]"
        "''Program stopped as a result of hitting breakpoint 2 hit by thread 1''" 1, OF _ _ p] d
    by simp
  have rest: "fst (stepOut \<lparr>cmd = None, client = Some ?c2\<rparr> 1)
       = Returns (Inr ''Stepped to program termination'')
     \<and> fst (pauseExecution \<lparr>cmd = None, client = Some ?c2\<rparr> 1) = Returns (Inr ''Paused execution'')"
  proof -
    have cl: "client \<lparr>cmd = None, client = Some ?c2\<rparr> = Some ?c2" by simp
    have we: "werr (conn ?c2) = None" by simp
    note w = execution_control_wait [OF cl we p, of ?body "[]" "''x''" 1]
    have a: "fst (stepOut \<lparr>cmd = None, client = Some ?c2\<rparr> 1)
       = Returns (Inr ''Stepped to program termination'')"
      using w by simp
    have i: "inbox (conn ?c2) = map Inr [] @ Inr (ResponseMessage ?ok)
            # [Inr (OtherEvent ''*dap.OutputEvent''), Inr TerminatedEvent]
          \<and> (\<forall>m\<in>set []. \<not> is_ResponseMessage m)"
      by simp
    have b: "fst (pauseExecution \<lparr>cmd = None, client = Some ?c2\<rparr> 1)
        = Returns (if Success ?ok then Inr ''Paused execution''
                   else Inl (''unable to pause execution: '' @ Message ?ok))"
      using w [THEN conjunct2, THEN conjunct2, rule_format, OF i] .
    from a b show ?thesis by simp
  qed
  from stopped rest show ?thesis by simp
qed

text \<open>
  C6. The claim is that the description of a stop is produced for every stopped-event
  body, the generic one when a breakpoint reason comes with no hit breakpoint id. The code
  indexes \<open>HitBreakpointIds[0]\<close> without looking at the length: on the body below it
  panics.
\<close>

theorem formatStoppedResponse_no_hit_ids:
  "formatStoppedResponse \<lparr>Reason = ''breakpoint'', ThreadId = 1, HitBreakpointIds = []\<rparr>
     = Panics ''index out of range [0] with length 0''"
  by (simp add: formatStoppedResponse_def)

text \<open>
  C7. The claim is that a sequence number is never used twice within one session object,
  also across a stop and a new start. The counter lives in the client, and every start
  makes a new client: the session that is started, stopped and started again sends its
  second initialize request with sequence number 1, as it did the first.
\<close>

theorem second_start_repeats_seq:
  "map Seq (outbox (conn (the (client first_session)))) = [1]
   \<and> fst (stopDebugger None first_session) = Returns (Inr ''Debugger stopped.'')
   \<and> map Seq (outbox (conn (the (client second_session)))) = [1]"
  by (simp add: second_session_eq) (simp add: first_session_eq stopDebugger_def)

text \<open>
  C7, as the code has it. Sequence numbers belong to the client, that is to one
  connection. Whatever the session was before, a start that dials and gets a connection
  with nothing written on it makes a client whose requests are numbered from 1 again: the
  initialize request is 1 and the requests issued after it follow as 2, 3, ...; on that
  connection no number is used twice (below \<open>2 ^ 63\<close> requests, the range of the
  counter).
\<close>

theorem startDebugger_numbers_from_one:
  "startDebugger env ds port = (r, ds', tr) \<Longrightarrow> Dial a \<in> set tr \<Longrightarrow>
   dial env = Some cn \<Longrightarrow> werr cn = None \<Longrightarrow> outbox cn = [] \<Longrightarrow>
   \<exists>c'. client ds' = Some c'
      \<and> (\<forall>xs. map Seq (outbox (conn (calls c' xs))) = map of_nat [1..<Suc (Suc (length xs))]
              \<and> (Suc (length xs) < 2 ^ 63 \<longrightarrow> distinct (map Seq (outbox (conn (calls c' xs))))))"
proof -
  assume run: "startDebugger env ds port = (r, ds', tr)" and d: "Dial a \<in> set tr"
    and cn: "dial env = Some cn" "werr cn = None" and fresh: "outbox cn = []"
  from startDebugger_new_client [OF run d cn] fresh obtain c'
    where c': "client ds' = Some c'" "seq c' = 2" "werr (conn c') = None"
      "outbox (conn c') = [\<lparr>Seq = 1, Type = ''request'', Command = ''initialize'',
                            Arguments = InitializeArguments\<rparr>]"
    by auto
  have seqs: "map Seq (outbox (conn (calls c' xs))) = map of_nat [1..<Suc (Suc (length xs))]" for xs
    using calls_outbox_seqs [OF c'(3), of xs] c'(2,4) by (simp add: upt_shift2 del: upt_Suc)
  have "distinct (map Seq (outbox (conn (calls c' xs))))" if "Suc (length xs) < 2 ^ 63" for xs
    unfolding seqs using that by (rule distinct_small_seqs)
  with c'(1) seqs show ?thesis by blast
qed

theorem startDebugger_numbers_from_one_witness:
  "client second_session = Some (the (client second_session))
   \<and> map Seq (outbox (conn (calls (the (client second_session))
          [CallLaunch ''exec'' ''/bin/p'' True, CallConfigurationDone]))) = [1, 2, 3]
   \<and> distinct (map Seq (outbox (conn (calls (the (client second_session))
          [CallLaunch ''exec'' ''/bin/p'' True, CallConfigurationDone]))))"
proof -
  have run: "startDebugger listening_env stopped_session ''9090'' =
     (Returns (Inr (''Started debugger at: :9090'' @ nl @ nl @ ''Server Capabilities:'' @ nl @ ''{}'')),
      second_session,
      [StartProcess [''dlv'', ''dap'', ''--listen'', '':9090'', ''--log'', ''--log-output'', ''dap''],
       ReadString (''API server starting'' @ nl) None,
       ReadString (''DAP server listening at: 127.0.0.1:9090'' @ nl) None,
       Dial ''localhost:9090''])"
    by (simp add: stopped_session_eq second_session_eq listening_run)
  have d: "dial listening_env = Some \<lparr>outbox = [],
                    inbox = [Inr (ResponseMessage \<lparr>RequestSeq = 1, Success = True, Message = [],
                                   Body = InitializeBody ''{}''\<rparr>)],
                    werr = None\<rparr>"
    by (simp add: listening_env_def)
  from startDebugger_numbers_from_one [OF run _ d, of "''localhost:9090''"]
  obtain c' where c': "client second_session = Some c'"
    and all: "\<And>xs. map Seq (outbox (conn (calls c' xs))) = map of_nat [1..<Suc (Suc (length xs))]
              \<and> (Suc (length xs) < 2 ^ 63 \<longrightarrow> distinct (map Seq (outbox (conn (calls c' xs)))))"
    by auto
  from all [of "[CallLaunch ''exec'' ''/bin/p'' True, CallConfigurationDone]"] c'
  show ?thesis by (simp add: upt_conv_Cons)
qed

text \<open>
  C8. \<open>startDebugger\<close> dials only after it has read, without error, a line of the
  subprocess's standard output that starts with \<open>DAP server listening at\<close>: in the
  sequence of its calls to the outside, every dial has such a read before it. When the
  reads of standard output meet an error (the end of the stream is one) before any such
  line, \<open>startDebugger\<close> returns an error, never dials and leaves the session's client as
  it was.
\<close>

theorem startDebugger_connects_after_listening:
  "startDebugger env ds port = (r, ds', tr) \<Longrightarrow>
   (\<forall>pre a post. tr = pre @ Dial a # post \<longrightarrow>
      (\<exists>s. ReadString s None \<in> set pre \<and> HasPrefix s ''DAP server listening at''))
   \<and> (\<forall>lines s e later.
        stdout env = lines @ (s, Some e) # later
        \<and> (\<forall>(l, x)\<in>set lines. x = None \<and> \<not> HasPrefix l ''DAP server listening at'') \<longrightarrow>
        (\<exists>e'. r = Returns (Inl e')) \<and> (\<forall>a. Dial a \<notin> set tr) \<and> client ds' = client ds)"
proof -
  assume run: "startDebugger env ds port = (r, ds', tr)"
  have first: "\<exists>s. ReadString s None \<in> set pre \<and> HasPrefix s ''DAP server listening at''"
    if tr: "tr = pre @ Dial a # post" for pre a post
  proof -
    from tr have "Dial a \<in> set tr" by simp
    with startDebugger_trace [OF run] obtain args a'
      where shape: "tr = StartProcess args # snd (awaitListening (stdout env)) @ [Dial a']"
        and ready: "fst (awaitListening (stdout env)) = Returns None"
      by blast
    let ?reads = "StartProcess args # snd (awaitListening (stdout env))"
    have "Dial a \<notin> set ?reads" by (simp add: awaitListening_no_dial)
    moreover have "?reads @ [Dial a'] = pre @ Dial a # post" using shape tr by simp
    ultimately have "pre = ?reads" by (rule before_last [rotated])
    with awaitListening_ready [OF ready] show ?thesis by auto
  qed
  have second: "(\<exists>e'. r = Returns (Inl e')) \<and> (\<forall>a. Dial a \<notin> set tr) \<and> client ds' = client ds"
    if out: "stdout env = lines @ (s, Some e) # later"
      and quiet: "\<forall>(l, x)\<in>set lines. x = None \<and> \<not> HasPrefix l ''DAP server listening at''"
    for lines s e later
  proof -
    have "fst (awaitListening (stdout env)) = Returns (Some e)"
      unfolding out using quiet by (rule awaitListening_error)
    from startDebugger_stdout_error [OF run this] show ?thesis by blast
  qed
  from first second show ?thesis by blast
qed

theorem startDebugger_connects_after_listening_witness:
  "(\<exists>s. ReadString s None
          \<in> set [StartProcess [''dlv'', ''dap'', ''--listen'', '':9090'', ''--log'', ''--log-output'', ''dap''],
                 ReadString (''API server starting'' @ nl) None,
                 ReadString (''DAP server listening at: 127.0.0.1:9090'' @ nl) None]
        \<and> HasPrefix s ''DAP server listening at'')
   \<and> (\<exists>e'. fst (startDebugger silent_env \<lparr>cmd = None, client = None\<rparr> ''9090'') = Returns (Inl e'))
   \<and> (\<forall>a. Dial a \<notin> set (snd (snd (startDebugger silent_env \<lparr>cmd = None, client = None\<rparr> ''9090''))))
   \<and> client (fst (snd (startDebugger silent_env \<lparr>cmd = None, client = None\<rparr> ''9090''))) = None"
proof -
  let ?pre = "[StartProcess [''dlv'', ''dap'', ''--listen'', '':9090'', ''--log'', ''--log-output'', ''dap''],
                 ReadString (''API server starting'' @ nl) None,
                 ReadString (''DAP server listening at: 127.0.0.1:9090'' @ nl) None]"
  have "?pre @ [Dial ''localhost:9090''] = ?pre @ Dial ''localhost:9090'' # []" by simp
  then have a: "\<exists>s. ReadString s None \<in> set ?pre \<and> HasPrefix s ''DAP server listening at''"
    using startDebugger_connects_after_listening [OF listening_run, THEN conjunct1, rule_format,
        of ?pre "''localhost:9090''" "[]"]
    by simp
  have "stdout silent_env = [(''could not launch'' @ nl, None)] @ ([], Some ''EOF'') # []
        \<and> (\<forall>(l, x)\<in>set [(''could not launch'' @ nl, None :: error option)].
              x = None \<and> \<not> HasPrefix l ''DAP server listening at'')"
    by (simp add: silent_env_def HasPrefix_def nl_def)
  from startDebugger_connects_after_listening [OF silent_run, THEN conjunct2, rule_format, OF this]
  have b: "(\<exists>e'. Returns (Inl ''EOF'') = Returns (Inl e' :: error + string))
      \<and> (\<forall>a. Dial a \<notin> set [StartProcess [''dlv'', ''dap'', ''--listen'', '':9090'', ''--log'', ''--log-output'', ''dap''],
       ReadString (''could not launch'' @ nl) None,
       ReadString [] (Some ''EOF'')])" by simp
  from a b show ?thesis by (simp add: silent_run)
qed

text \<open>
  C9. The claim is that stopping when no debugger subprocess exists returns the result
  \<open>No debugger currently executing.\<close> and leaves the session as it was. The code tests
  \<open>ds.cmd\<close> only, and \<open>startDebugger\<close> sets \<open>ds.cmd\<close> before the subprocess is
  started: after a start whose \<open>Start\<close> failed no subprocess exists, \<open>ds.cmd\<close> is set
  with no \<open>Process\<close>, and the stop panics in \<open>ds.cmd.Process.Kill()\<close>.
\<close>

theorem stopDebugger_after_failed_start:
  "startDebugger unstartable_env \<lparr>cmd = None, client = None\<rparr> ''9090''
     = (Returns (Inl ''executable file not found''),
        \<lparr>cmd = Some \<lparr>Args = [''dlv'', ''dap'', ''--listen'', '':9090'', ''--log'',
                              ''--log-output'', ''dap''],
                      Process = False\<rparr>,
         client = None\<rparr>,
        [StartProcess [''dlv'', ''dap'', ''--listen'', '':9090'', ''--log'', ''--log-output'',
                       ''dap'']])
   \<and> stopDebugger None
        (fst (snd (startDebugger unstartable_env \<lparr>cmd = None, client = None\<rparr> ''9090'')))
     = (Panics ''invalid memory address or nil pointer dereference'',
        \<lparr>cmd = Some \<lparr>Args = [''dlv'', ''dap'', ''--listen'', '':9090'', ''--log'',
                              ''--log-output'', ''dap''],
                      Process = False\<rparr>,
         client = None\<rparr>)"
  by (simp add: unstartable_env_def startDebugger_def Let_def HasPrefix_def stopDebugger_def)

text \<open>
  C10. A stack-trace call on a connected session whose write succeeds puts one
  \<open>stackTrace\<close> request on the wire; it carries \<open>Levels = 20\<close> when the caller's
  \<open>Levels\<close> is 0 and the caller's \<open>Levels\<close> otherwise, and the caller's \<open>ThreadID\<close>
  and \<open>StartFrame\<close> unchanged.
\<close>

theorem getStackTrace_levels_default:
  "client ds = Some c \<Longrightarrow> werr (conn c) = None \<Longrightarrow>
   \<exists>c'. client (snd (getStackTrace ds threadID startFrame levels)) = Some c'
      \<and> outbox (conn c') = outbox (conn c)
           @ [\<lparr>Seq = seq c, Type = ''request'', Command = ''stackTrace'',
               Arguments = StackTraceArguments threadID startFrame
                             (if levels = 0 then 20 else levels)\<rparr>]"
proof -
  assume c: "client ds = Some c" and w: "werr (conn c) = None"
  let ?lv = "if levels = 0 then 20 else levels"
  let ?sent = "StackTraceRequest c threadID startFrame ?lv"
  have g: "getStackTrace ds threadID startFrame levels = looping ds ?sent (getStackTrace_loop threadID)"
    using c by (simp add: getStackTrace_def Let_def)
  obtain c' where "client (snd (looping ds ?sent (getStackTrace_loop threadID))) = Some c'"
    and "outbox (conn c') = outbox (conn (snd ?sent))"
    using looping_client by blast
  then show ?thesis
    using w by (auto simp add: g StackTraceRequest_def request_with_outbox simp del: request_with_def)
qed

theorem getStackTrace_levels_default_witness:
  "\<exists>c'. client (snd (getStackTrace
            \<lparr>cmd = None, client = Some \<lparr>conn = \<lparr>outbox = [], inbox = [], werr = None\<rparr>, seq = 5\<rparr>\<rparr>
            1 0 0)) = Some c'
      \<and> outbox (conn c')
           = [\<lparr>Seq = 5, Type = ''request'', Command = ''stackTrace'',
               Arguments = StackTraceArguments 1 0 20\<rparr>]"
  using getStackTrace_levels_default
    [of "\<lparr>cmd = None, client = Some \<lparr>conn = \<lparr>outbox = [], inbox = [], werr = None\<rparr>, seq = 5\<rparr>\<rparr>"
        "\<lparr>conn = \<lparr>outbox = [], inbox = [], werr = None\<rparr>, seq = 5\<rparr>" 1 0 0]
  by simp

end
